theory Spec2Isabelle
  imports Complex_Main
begin

section \<open>Python values and exceptions\<close>

text \<open>
  The exceptions the four scripts can raise. \<open>Out_of_fuel\<close> is not a Python exception: it
  is the outcome of a model loop whose iteration budget ran out, and no handler of the
  scripts catches it.
\<close>

datatype exn =
    KeyboardInterrupt
  | ValueError
  | IndexError
  | NameError string
  | ZeroDivisionError
  | OverflowError
  | Out_of_fuel

text \<open>Python subscripting \<open>xs[i]\<close>: a negative index counts from the end.\<close>

definition getitem :: "'a list \<Rightarrow> int \<Rightarrow> exn + 'a" where
  "getitem xs i =
     (if 0 \<le> i \<and> i < int (length xs) then Inr (xs ! nat i)
      else if - int (length xs) \<le> i \<and> i < 0 then Inr (xs ! nat (int (length xs) + i))
      else Inl IndexError)"

text \<open>\<open>range(start, stop, 1)\<close> as the list of its values.\<close>

definition py_range :: "int \<Rightarrow> int \<Rightarrow> int list" where
  "py_range start stop = [start..stop - 1]"

text \<open>
  A \<open>for\<close> loop that appends one computed item per iteration to a list; an exception in
  the body leaves the loop and the list built so far is lost with it.
\<close>

primrec append_each :: "('a \<Rightarrow> exn + 'b) \<Rightarrow> 'b list \<Rightarrow> 'a list \<Rightarrow> exn + 'b list" where
  "append_each f acc [] = Inr acc"
| "append_each f acc (x # xs) =
     (case f x of Inl e \<Rightarrow> Inl e | Inr y \<Rightarrow> append_each f (acc @ [y]) xs)"

section \<open>Python floats\<close>

text \<open>
  A Python float is an IEEE 754 binary64 number. A finite float is written here as the real
  number it denotes, and every float operation of the scripts is its exact result rounded
  to the nearest binary64 number, ties going to the even significand: \<open>float64\<close>.

  \<open>binade x\<close> is the exponent \<open>e\<close> with \<open>2 ^ e \<le> \<bar>x\<bar> < 2 ^ (e + 1)\<close>. The binary64 numbers
  of that binade are the multiples of \<open>2 ^ (e - 52)\<close>; below \<open>2 ^ (- 1022)\<close>, among the
  subnormal numbers, the spacing stays \<open>2 ^ (- 1074)\<close>. A result of magnitude
  \<open>2 ^ 1024 - 2 ^ 970\<close> or more is infinite in binary64; no float operation of the scripts
  comes near (the operands are sensor readings, sums of at most 64 unsigned 64-bit samples
  and random numbers below 1 times 100), and infinities and the sign of zero are not
  modelled.
\<close>

definition round_half_even :: "real \<Rightarrow> int" where
  "round_half_even x =
     (let f = \<lfloor>x\<rfloor>; d = x - of_int f
      in if d < 1 / 2 then f else if d > 1 / 2 then f + 1 else if even f then f else f + 1)"

definition binade :: "real \<Rightarrow> int" where
  "binade x = \<lfloor>log 2 \<bar>x\<bar>\<rfloor>"

definition ulp_exponent :: "real \<Rightarrow> int" where
  "ulp_exponent x = max (binade x) (- 1022) - 52"

definition float64 :: "real \<Rightarrow> real" where
  "float64 x =
     (if x = 0 then 0
      else of_int (round_half_even (x / 2 powr of_int (ulp_exponent x)))
             * 2 powr of_int (ulp_exponent x))"

text \<open>
  \<open>float(n)\<close> of a Python int, as the mixed operation \<open>n + 1.0\<close> applies it to its int
  operand: the nearest float, and OverflowError for an int that rounds beyond the largest
  float.
\<close>

definition py_float :: "int \<Rightarrow> exn + real" where
  "py_float n =
     (if \<bar>n\<bar> \<ge> 2 ^ 1024 - 2 ^ 970 then Inl OverflowError else Inr (float64 (of_int n)))"

text \<open>\<open>int(x)\<close> of a float truncates toward zero; \<open>int(nan)\<close> raises ValueError.\<close>

definition py_int :: "real option \<Rightarrow> exn + int" where
  "py_int x =
     (case x of
        None \<Rightarrow> Inl ValueError
      | Some v \<Rightarrow> Inr (if 0 \<le> v then \<lfloor>v\<rfloor> else \<lceil>v\<rceil>))"

text \<open>
  \<open>round(x, ndigits)\<close> of a float: the decimal with \<open>ndigits\<close> places nearest to the exact
  value of \<open>x\<close> (ties to the even last digit), then the float nearest to that decimal.
\<close>

definition py_round :: "real \<Rightarrow> nat \<Rightarrow> real" where
  "py_round x ndigits = float64 (of_int (round_half_even (x * 10 ^ ndigits)) / 10 ^ ndigits)"

section \<open>Trilobot\_v072.py: zone extraction, averaging, collision test\<close>

text \<open>
  A frame is what \<open>np_distances_vl53l5cx_mm\<close> returns: a numpy array of unsigned 64-bit
  samples, which are naturals below \<open>2 ^ 64\<close>. The first argument of \<open>np_extract\<close> is any Python object; the function
  accepts arrays of one or two dimensions and rejects everything else.
\<close>

datatype ndarray = Ndarray1 "nat list" | Ndarray2 "nat list list"

datatype pyobject = Array ndarray | Other_object

text \<open>
  \<open>_nr_rows = len(arr)\<close>, then \<open>_nr_cols = len(arr[0])\<close>; on a one-dimensional array
  \<open>arr[0]\<close> is a scalar, \<open>len\<close> raises TypeError and the handler sets one row of
  \<open>len(arr)\<close> columns. \<open>arr[0]\<close> on an array without elements raises IndexError, which
  nothing catches.
\<close>

definition nr_rows_cols :: "ndarray \<Rightarrow> exn + int \<times> int" where
  "nr_rows_cols arr =
     (case arr of
        Ndarray2 rows \<Rightarrow>
          (case getitem rows 0 of
             Inl e \<Rightarrow> Inl e
           | Inr row0 \<Rightarrow> Inr (int (length rows), int (length row0)))
      | Ndarray1 xs \<Rightarrow>
          (case getitem xs 0 of
             Inl e \<Rightarrow> Inl e
           | Inr x0 \<Rightarrow> Inr (1, int (length xs))))"

text \<open>\<open>arr[r][c]\<close>; subscripting the scalar \<open>arr[r]\<close> of a 1-d array raises IndexError.\<close>

definition item2 :: "ndarray \<Rightarrow> int \<Rightarrow> int \<Rightarrow> exn + nat" where
  "item2 arr r c =
     (case arr of
        Ndarray2 rows \<Rightarrow>
          (case getitem rows r of Inl e \<Rightarrow> Inl e | Inr row \<Rightarrow> getitem row c)
      | Ndarray1 xs \<Rightarrow>
          (case getitem xs r of Inl e \<Rightarrow> Inl e | Inr x \<Rightarrow> Inl IndexError))"

definition np_extract :: "pyobject \<Rightarrow> int \<Rightarrow> int \<Rightarrow> int \<Rightarrow> int \<Rightarrow> exn + nat list list" where
  "np_extract obj start_row start_col end_row end_col =
     (case obj of
        Other_object \<Rightarrow> Inl ValueError
      | Array arr \<Rightarrow>
          (case nr_rows_cols arr of
             Inl e \<Rightarrow> Inl e
           | Inr (nr_rows, nr_cols) \<Rightarrow>
               (let valid = (start_row \<ge> 0 \<and> start_col \<ge> 0 \<and> start_row \<le> nr_rows
                      \<and> start_col \<le> nr_cols \<and> end_row \<ge> 0 \<and> end_col \<ge> 0
                      \<and> end_row \<le> nr_rows \<and> end_col \<le> nr_cols)
                in if valid
                   then append_each
                          (\<lambda>r. append_each (\<lambda>c. item2 arr r c) []
                                 (py_range start_col (end_col + 1)))
                          [] (py_range start_row (end_row + 1))
                   else Inl ValueError)))"

text \<open>
  \<open>np.average(_mm)\<close> of the extracted rows. numpy turns the list of rows into an array
  (rows of different lengths do not make one: ValueError), converts every unsigned 64-bit
  sample to a float, adds the floats up and divides the sum by their number; without any
  sample the result is \<open>nan\<close> (\<open>None\<close>). Each conversion, each addition and the division
  rounds. The additions are made from left to right here; numpy adds in blocks, which
  gives the same sum whenever no addition rounds, that is for samples that add up to at
  most \<open>2 ^ 53\<close>.
\<close>

definition float_sum :: "real list \<Rightarrow> real" where
  "float_sum xs = foldl (\<lambda>total x. float64 (total + x)) 0 xs"

definition rectangular :: "'a list list \<Rightarrow> bool" where
  "rectangular rows = list_all (\<lambda>row. length row = length (hd rows)) rows"

definition np_average :: "nat list list \<Rightarrow> exn + real option" where
  "np_average mm =
     (if \<not> rectangular mm then Inl ValueError
      else let samples = map (\<lambda>x. float64 (real x)) (concat mm)
           in if samples = [] then Inr None
              else Inr (Some (float64 (float_sum samples / real (length samples)))))"

text \<open>\<open>int(np.average(_mm))\<close>, as \<open>np_average_distances\<close> computes each zone's distance.\<close>

definition average_mm :: "nat list list \<Rightarrow> exn + int" where
  "average_mm mm = (case np_average mm of Inl e \<Rightarrow> Inl e | Inr mean \<Rightarrow> py_int mean)"

definition COLLISION_THRESHOLD_MM :: int where
  "COLLISION_THRESHOLD_MM = 200"

definition check_for_collision :: "int \<Rightarrow> int \<Rightarrow> bool" where
  "check_for_collision fwd_mm threshold =
     (let result = False in if fwd_mm \<le> threshold then True else result)"

section \<open>Trilobot\_v072.py: the turn decision\<close>

text \<open>
  The \<open>if\<close>/\<open>elif\<close> chain of the reaction loop selects one of three calls:
  \<open>turn_right()\<close>, \<open>turn_left()\<close> or, in its last branch, \<open>backup()\<close>. (The last branch
  is spelled \<open>else;\<close> in the script; it is read as \<open>else:\<close>.)
\<close>

datatype reaction = TurnRight | TurnLeft | BackUp

definition TURN_TOLERANCE_MM :: real where
  "TURN_TOLERANCE_MM = 1"

text \<open>
  The two comparisons of the chain are between an int and the float \<open>int + tolerance\<close>:
  Python converts the int operand of the sum to a float, adds the two floats and compares
  the other int with the sum exactly. The conversion of the left average comes first; the
  right average is converted only when the first comparison fails.
\<close>

definition turn_decision :: "int \<Rightarrow> int \<Rightarrow> real \<Rightarrow> real \<Rightarrow> exn + reaction" where
  "turn_decision left_distance_mm right_distance_mm tolerance percent =
     (case py_float left_distance_mm of
        Inl e \<Rightarrow> Inl e
      | Inr left \<Rightarrow>
          if real_of_int right_distance_mm \<ge> float64 (left + tolerance) then Inr TurnRight
          else (case py_float right_distance_mm of
                  Inl e \<Rightarrow> Inl e
                | Inr right \<Rightarrow>
                    if real_of_int left_distance_mm \<ge> float64 (right + tolerance) then Inr TurnLeft
                    else if percent < 50 then Inr TurnRight
                    else if percent \<ge> 50 then Inr TurnLeft
                    else Inr BackUp))"

section \<open>Sample inputs\<close>

definition is_frame :: "nat list list \<Rightarrow> bool" where
  "is_frame rows = (length rows = 8 \<and> list_all (\<lambda>row. length row = 8) rows)"

text \<open>A frame whose cell in row \<open>r\<close>, column \<open>c\<close> holds \<open>10 * r + c\<close>.\<close>

definition frame0 :: "nat list list" where
  "frame0 =
     [[ 0,  1,  2,  3,  4,  5,  6,  7],
      [10, 11, 12, 13, 14, 15, 16, 17],
      [20, 21, 22, 23, 24, 25, 26, 27],
      [30, 31, 32, 33, 34, 35, 36, 37],
      [40, 41, 42, 43, 44, 45, 46, 47],
      [50, 51, 52, 53, 54, 55, 56, 57],
      [60, 61, 62, 63, 64, 65, 66, 67],
      [70, 71, 72, 73, 74, 75, 76, 77]]"

section \<open>The robot, the sensors and the operator\<close>

text \<open>
  The scripts drive a Pimoroni Trilobot through its library, read a VL53L5CX distance
  sensor or the robot's ultrasonic sensor, and call \<open>time\<close> and \<open>random\<close>. None of these
  libraries is part of the scripts. Every call into them is recorded as an event, in the
  order of the calls, and what a call returns is taken from the inputs of the run.
  Console output is left out: the \<open>print\<close> calls format ints, floats and bools and tell
  the robot nothing.
\<close>

datatype light =
    LIGHT_FRONT_LEFT | LIGHT_MIDDLE_LEFT | LIGHT_REAR_LEFT
  | LIGHT_FRONT_RIGHT | LIGHT_MIDDLE_RIGHT | LIGHT_REAR_RIGHT

type_synonym colour = "nat \<times> nat \<times> nat"

datatype event =
    Set_motor_speeds real real
  | Set_underlights "light list" colour
  | Clear_underlights "light list"
  | Sleep real
  | Data_ready bool
  | Get_data
  | Random
  | Randint int int
  | Read_distance nat nat
  | Perf_counter

text \<open>
  The inputs of a run: for the \<open>n\<close>-th answer that the script asks for, what each kind of
  call would return. \<open>sensor_data\<close> is the sensor's buffer \<open>distance_mm\<close> of signed 16-bit
  readings; \<open>random_values\<close> and \<open>ultrasonic_values\<close> are floats (the calls below round
  them to floats, which changes nothing for an input that is one).
\<close>

record inputs =
  sensor_ready :: "nat \<Rightarrow> bool"
  sensor_data :: "nat \<Rightarrow> int list"
  random_values :: "nat \<Rightarrow> real"
  randint_values :: "nat \<Rightarrow> int"
  ultrasonic_values :: "nat \<Rightarrow> real"

text \<open>
  The state of a run: the events so far, the operator's interrupt (\<open>irq = Some k\<close>: Ctrl-C
  arrives after \<open>k\<close> more steps of the script; \<open>None\<close>: no interrupt on its way), the number
  of answers asked for, the inputs, and the script's global variables.
\<close>

record 'v world =
  trace :: "event list"
  irq :: "nat option"
  asked :: nat
  env :: inputs
  vars :: 'v

text \<open>
  A statement or expression of a script maps the state to its outcome, an exception or a
  value, and the state it leaves.
\<close>

type_synonym ('v, 'a) prog = "'v world \<Rightarrow> (exn + 'a) \<times> 'v world"

definition return :: "'a \<Rightarrow> ('v, 'a) prog" where
  "return x = (\<lambda>w. (Inr x, w))"

definition raise :: "exn \<Rightarrow> ('v, 'a) prog" where
  "raise e = (\<lambda>w. (Inl e, w))"

definition lift :: "exn + 'a \<Rightarrow> ('v, 'a) prog" where
  "lift r = (\<lambda>w. (r, w))"

definition seq :: "('v, 'a) prog \<Rightarrow> ('a \<Rightarrow> ('v, 'b) prog) \<Rightarrow> ('v, 'b) prog" where
  "seq p f = (\<lambda>w. case p w of (Inl e, w') \<Rightarrow> (Inl e, w') | (Inr x, w') \<Rightarrow> f x w')"

primrec block :: "('v, unit) prog list \<Rightarrow> ('v, unit) prog" where
  "block [] = return ()"
| "block (p # ps) = seq p (\<lambda>_. block ps)"

definition get :: "('v \<Rightarrow> 'a) \<Rightarrow> ('v, 'a) prog" where
  "get f = (\<lambda>w. (Inr (f (vars w)), w))"

text \<open>
  Python raises KeyboardInterrupt in the main thread between two bytecode instructions.
  The steps at which the model lets the interrupt in are the library calls and the
  assignments to globals, just before each takes effect: between two such steps neither
  the events nor the globals change, so an interrupt that arrives anywhere in between
  finds the script in the state in which the next step finds it. A library call that has
  begun is taken as made. One interrupt is modelled; the except clauses run after it.
\<close>

definition interruption_point :: "('v, unit) prog" where
  "interruption_point =
     (\<lambda>w. case irq w of
             None \<Rightarrow> (Inr (), w)
           | Some 0 \<Rightarrow> (Inl KeyboardInterrupt, w\<lparr>irq := None\<rparr>)
           | Some (Suc k) \<Rightarrow> (Inr (), w\<lparr>irq := Some k\<rparr>))"

definition assign :: "('v \<Rightarrow> 'v) \<Rightarrow> ('v, unit) prog" where
  "assign f = seq interruption_point (\<lambda>_ w. (Inr (), w\<lparr>vars := f (vars w)\<rparr>))"

definition call :: "event \<Rightarrow> ('v, unit) prog" where
  "call e = seq interruption_point (\<lambda>_ w. (Inr (), w\<lparr>trace := trace w @ [e]\<rparr>))"

definition ask :: "(inputs \<Rightarrow> nat \<Rightarrow> 'a) \<Rightarrow> ('a \<Rightarrow> event) \<Rightarrow> ('v, 'a) prog" where
  "ask stream ev =
     seq interruption_point
       (\<lambda>_ w. let answer = stream (env w) (asked w)
              in (Inr answer, w\<lparr>trace := trace w @ [ev answer], asked := Suc (asked w)\<rparr>))"

text \<open>
  A \<open>while\<close> loop runs for at most \<open>fuel\<close> iterations; a loop that would go on raises the
  outcome \<open>Out_of_fuel\<close>. \<open>for_range n\<close> is \<open>for _ in range(n)\<close>, and \<open>for_fold\<close> is such a
  loop that updates local variables.
\<close>

primrec while_loop :: "nat \<Rightarrow> ('v, bool) prog \<Rightarrow> ('v, unit) prog \<Rightarrow> ('v, unit) prog" where
  "while_loop 0 cond body = raise Out_of_fuel"
| "while_loop (Suc fuel) cond body =
     seq cond (\<lambda>c. if c then seq body (\<lambda>_. while_loop fuel cond body) else return ())"

primrec for_range :: "nat \<Rightarrow> ('v, unit) prog \<Rightarrow> ('v, unit) prog" where
  "for_range 0 body = return ()"
| "for_range (Suc n) body = seq body (\<lambda>_. for_range n body)"

primrec for_fold :: "nat \<Rightarrow> ('s \<Rightarrow> ('v, 's) prog) \<Rightarrow> 's \<Rightarrow> ('v, 's) prog" where
  "for_fold 0 body s = return s"
| "for_fold (Suc n) body s = seq (body s) (for_fold n body)"

text \<open>\<open>try: body except KeyboardInterrupt: handler\<close>; any other exception passes through.\<close>

definition try_except_KeyboardInterrupt :: "('v, unit) prog \<Rightarrow> ('v, unit) prog \<Rightarrow> ('v, unit) prog" where
  "try_except_KeyboardInterrupt body handler =
     (\<lambda>w. case body w of
             (Inl KeyboardInterrupt, w') \<Rightarrow> handler w'
           | (Inl e, w') \<Rightarrow> (Inl e, w')
           | (Inr x, w') \<Rightarrow> (Inr x, w'))"

definition set_motor_speeds :: "real \<Rightarrow> real \<Rightarrow> ('v, unit) prog" where
  "set_motor_speeds l r = call (Set_motor_speeds l r)"

definition set_underlights :: "light list \<Rightarrow> colour \<Rightarrow> ('v, unit) prog" where
  "set_underlights grp color = call (Set_underlights grp color)"

definition clear_underlights :: "light list \<Rightarrow> ('v, unit) prog" where
  "clear_underlights grp = call (Clear_underlights grp)"

definition sleep :: "real \<Rightarrow> ('v, unit) prog" where
  "sleep sec = call (Sleep sec)"

definition data_ready :: "('v, bool) prog" where
  "data_ready = ask sensor_ready Data_ready"

definition get_data :: "('v, int list) prog" where
  "get_data = ask sensor_data (\<lambda>_. Get_data)"

definition random :: "('v, real) prog" where
  "random = ask (\<lambda>inputs n. float64 (random_values inputs n)) (\<lambda>_. Random)"

definition randint :: "int \<Rightarrow> int \<Rightarrow> ('v, int) prog" where
  "randint a b = ask randint_values (\<lambda>_. Randint a b)"

definition read_distance :: "nat \<Rightarrow> nat \<Rightarrow> ('v, real) prog" where
  "read_distance timeout samples =
     ask (\<lambda>inputs n. float64 (ultrasonic_values inputs n)) (\<lambda>_. Read_distance timeout samples)"

text \<open>The evaluation of a name that no statement of the script binds.\<close>

definition unbound_name :: "string \<Rightarrow> ('v, unit) prog" where
  "unbound_name name = raise (NameError name)"

definition perf_counter :: "('v, unit) prog" where
  "perf_counter = call Perf_counter"

section \<open>Trilobot\_v072.py\<close>

text \<open>
  The constants of the script. A decimal literal such as \<open>0.45\<close> denotes the float nearest
  to it; the scripts pass these floats on to the robot and to \<open>sleep\<close>, negate them, and
  add the two pairs of forward speed and offset, nothing else, so the literals are kept as
  written.
\<close>

definition NORMAL_LEFT_SPEED :: real where "NORMAL_LEFT_SPEED = 0.50"
definition NORMAL_LEFT_OFFSET :: real where "NORMAL_LEFT_OFFSET = 0"
definition NORMAL_RIGHT_SPEED :: real where "NORMAL_RIGHT_SPEED = 0.50"
definition NORMAL_RIGHT_OFFSET :: real where "NORMAL_RIGHT_OFFSET = - 0.50"
definition TURN_SPEED :: real where "TURN_SPEED = 0.45"
definition TURN_TIME_SEC :: real where "TURN_TIME_SEC = 0.45"
definition LEFT :: int where "LEFT = 1"
definition RIGHT :: int where "RIGHT = 2"
definition DEFAULT_BACKUP_LOOPS :: nat where "DEFAULT_BACKUP_LOOPS = 5"
definition DEFAULT_BACKUP_TIME_SEC :: real where "DEFAULT_BACKUP_TIME_SEC = 0.15"
definition RED :: colour where "RED = (255, 0, 0)"
definition BLUE :: colour where "BLUE = (0, 0, 255)"
definition GREEN :: colour where "GREEN = (0, 255, 0)"
definition YELLOW :: colour where "YELLOW = (255, 255, 0)"
definition DEFAULT_BLINK_RATE_SEC :: real where "DEFAULT_BLINK_RATE_SEC = 0.25"
definition DEFAULT_NUM_CYCLES :: nat where "DEFAULT_NUM_CYCLES = 1"
definition LEFT_LIGHTS :: "light list" where "LEFT_LIGHTS = [LIGHT_FRONT_LEFT, LIGHT_MIDDLE_LEFT]"
definition RIGHT_LIGHTS :: "light list" where "RIGHT_LIGHTS = [LIGHT_FRONT_RIGHT, LIGHT_MIDDLE_RIGHT]"
definition REAR_LIGHTS :: "light list" where "REAR_LIGHTS = [LIGHT_REAR_LEFT, LIGHT_REAR_RIGHT]"
definition FRONT_LIGHTS :: "light list" where "FRONT_LIGHTS = [LIGHT_FRONT_LEFT, LIGHT_FRONT_RIGHT]"

text \<open>
  The globals that the try statement of the script reads or assigns. \<open>DRIVE_ON\<close> is set to
  \<open>False\<close> by a module-level assignment, and no statement changes it.
\<close>

record globals =
  DRIVE_ON :: bool
  collision :: bool
  left_distance_mm :: int
  right_distance_mm :: int
  center_distance_mm :: int
  percent :: real
  last_turn :: int

definition blink_underlights :: "light list \<Rightarrow> colour \<Rightarrow> nat \<Rightarrow> real \<Rightarrow> ('v, unit) prog" where
  "blink_underlights grp color nr_cycles blink_rate_sec =
     for_range nr_cycles
       (block [set_underlights grp color, sleep blink_rate_sec, clear_underlights grp])"

text \<open>
  \<open>np.array(data.distance_mm, dtype='uint64').reshape((8, 8))\<close>: the cast of the signed
  readings wraps a negative reading around, and \<open>reshape\<close> needs 64 of them. \<open>flipud\<close>
  reverses the order of the rows, \<open>fliplr\<close> the order within each row.
\<close>

definition uint64 :: "int \<Rightarrow> nat" where
  "uint64 x = nat (x mod 2 ^ 64)"

definition reshape_8_8 :: "nat list \<Rightarrow> exn + nat list list" where
  "reshape_8_8 xs =
     (if length xs = 64 then Inr (map (\<lambda>r. take 8 (drop (8 * r) xs)) [0..<8])
      else Inl ValueError)"

definition flipud :: "'a list list \<Rightarrow> 'a list list" where
  "flipud rows = rev rows"

definition fliplr :: "'a list list \<Rightarrow> 'a list list" where
  "fliplr rows = map rev rows"

definition np_distances_vl53l5cx_mm :: "nat \<Rightarrow> ('v, nat list list) prog" where
  "np_distances_vl53l5cx_mm fuel =
     seq (while_loop fuel (seq data_ready (\<lambda>ready. return (\<not> ready))) (return ())) (\<lambda>_.
     seq get_data (\<lambda>data.
     seq (lift (reshape_8_8 (map uint64 data))) (\<lambda>distances_mm.
     seq (return (flipud distances_mm)) (\<lambda>distances_mm.
     seq (return (fliplr distances_mm)) (\<lambda>distances_mm.
     seq (sleep 0.25) (\<lambda>_.
     return distances_mm))))))"

definition np_average_distances :: "nat \<Rightarrow> ('v, int \<times> int \<times> int) prog" where
  "np_average_distances fuel =
     seq (np_distances_vl53l5cx_mm fuel) (\<lambda>dist_mm.
     seq (lift (np_extract (Array (Ndarray2 dist_mm)) 2 2 5 5)) (\<lambda>mm.
     seq (lift (average_mm mm)) (\<lambda>center_distance_mm.
     seq (lift (np_extract (Array (Ndarray2 dist_mm)) 0 0 7 1)) (\<lambda>mm.
     seq (lift (average_mm mm)) (\<lambda>left_distance_mm.
     seq (lift (np_extract (Array (Ndarray2 dist_mm)) 0 6 7 7)) (\<lambda>mm.
     seq (lift (average_mm mm)) (\<lambda>right_distance_mm.
     return (left_distance_mm, right_distance_mm, center_distance_mm))))))))"

text \<open>
  \<open>turn_left\<close> and \<open>turn_right\<close> assign \<open>last_turn\<close> without a \<open>global\<close> declaration: the name
  is local to the call and is never read.
\<close>

definition turn_left :: "(globals, unit) prog" where
  "turn_left =
     (let last_turn = LEFT
      in block
           [blink_underlights LEFT_LIGHTS BLUE DEFAULT_NUM_CYCLES DEFAULT_BLINK_RATE_SEC,
            seq (get DRIVE_ON) (\<lambda>drive_on.
              if drive_on then set_motor_speeds (- TURN_SPEED) TURN_SPEED else return ())])"

definition turn_right :: "(globals, unit) prog" where
  "turn_right =
     (let last_turn = RIGHT
      in block
           [blink_underlights RIGHT_LIGHTS BLUE DEFAULT_NUM_CYCLES DEFAULT_BLINK_RATE_SEC,
            seq (get DRIVE_ON) (\<lambda>drive_on.
              if drive_on then set_motor_speeds TURN_SPEED (- TURN_SPEED) else return ())])"

definition backup :: "nat \<Rightarrow> real \<Rightarrow> (globals, unit) prog" where
  "backup loops wait_sec =
     seq (get DRIVE_ON) (\<lambda>drive_on.
       if drive_on
       then for_range loops
              (block
                 [blink_underlights REAR_LIGHTS YELLOW DEFAULT_NUM_CYCLES DEFAULT_BLINK_RATE_SEC,
                  set_motor_speeds (- TURN_SPEED) (- TURN_SPEED),
                  sleep wait_sec])
       else return ())"

definition assign_distances :: "nat \<Rightarrow> (globals, unit) prog" where
  "assign_distances fuel =
     seq (np_average_distances fuel) (\<lambda>(l, r, c).
       assign (\<lambda>v. v\<lparr>left_distance_mm := l, right_distance_mm := r, center_distance_mm := c\<rparr>))"

definition assign_collision :: "(globals, unit) prog" where
  "assign_collision =
     assign (\<lambda>v. v\<lparr>collision := check_for_collision (center_distance_mm v) COLLISION_THRESHOLD_MM\<rparr>)"

definition react :: "reaction \<Rightarrow> (globals, unit) prog" where
  "react r =
     (case r of
        TurnRight \<Rightarrow> turn_right
      | TurnLeft \<Rightarrow> turn_left
      | BackUp \<Rightarrow> backup DEFAULT_BACKUP_LOOPS DEFAULT_BACKUP_TIME_SEC)"

text \<open>
  The bodies of the two inner loops of the main line, the loops, and the try statement.
  The reaction loop ends its \<open>if\<close> chain on the turn decision of the previous section.
\<close>

definition forward_pass :: "nat \<Rightarrow> (globals, unit) prog" where
  "forward_pass fuel =
     block
       [blink_underlights FRONT_LIGHTS GREEN DEFAULT_NUM_CYCLES DEFAULT_BLINK_RATE_SEC,
        assign_distances fuel,
        assign_collision,
        sleep 0.25]"

definition reaction_pass :: "nat \<Rightarrow> (globals, unit) prog" where
  "reaction_pass fuel =
     block
       [seq random (\<lambda>x. assign (\<lambda>v. v\<lparr>percent := float64 (x * 100)\<rparr>)),
        backup DEFAULT_BACKUP_LOOPS DEFAULT_BACKUP_TIME_SEC,
        seq random (\<lambda>x. assign (\<lambda>v. v\<lparr>percent := py_round (float64 (x * 100)) 2\<rparr>)),
        seq (get (\<lambda>v. v)) (\<lambda>v.
          seq (lift (turn_decision (left_distance_mm v) (right_distance_mm v)
                       TURN_TOLERANCE_MM (percent v)))
            react),
        sleep TURN_TIME_SEC,
        assign_distances fuel,
        assign_collision]"

definition forward_loop :: "nat \<Rightarrow> (globals, unit) prog" where
  "forward_loop fuel = while_loop fuel (get (\<lambda>v. \<not> collision v)) (forward_pass fuel)"

definition reaction_loop :: "nat \<Rightarrow> (globals, unit) prog" where
  "reaction_loop fuel = while_loop fuel (get collision) (reaction_pass fuel)"

definition control_loop :: "nat \<Rightarrow> (globals, unit) prog" where
  "control_loop fuel =
     while_loop fuel (return True)
       (block
          [seq (get DRIVE_ON) (\<lambda>drive_on.
             if drive_on
             then set_motor_speeds (float64 (NORMAL_LEFT_SPEED + NORMAL_LEFT_OFFSET))
                                   (float64 (NORMAL_RIGHT_SPEED + NORMAL_RIGHT_OFFSET))
             else return ()),
           forward_loop fuel,
           reaction_loop fuel])"

definition main :: "nat \<Rightarrow> (globals, unit) prog" where
  "main fuel =
     try_except_KeyboardInterrupt
       (block
          [assign_distances fuel,
           assign_collision,
           assign (\<lambda>v. v\<lparr>percent := 0\<rparr>),
           assign (\<lambda>v. v\<lparr>last_turn := 0\<rparr>),
           control_loop fuel])
       (set_motor_speeds 0 0)"

section \<open>The ultrasonic scripts: Trilobot.py, Trilobot\_v060.py, utility\_functions.py\<close>

definition MAX_NUM_READINGS :: nat where "MAX_NUM_READINGS = 10"
definition MAX_TIMEOUT_SEC :: nat where "MAX_TIMEOUT_SEC = 25"
definition MAX_NUM_SAMPLES :: nat where "MAX_NUM_SAMPLES = 3"

text \<open>
  \<open>distance_reading_cm\<close> is the same function in the three files. Its inner loop asks
  for a reading until one is not negative; after the tenth reading, whatever it is, the
  loop body calls \<open>blink_underlighting\<close>, a name that no file binds (the function defined
  is \<open>blink_underlights\<close>), and would then raise ValueError. The total and the average of
  the readings are floats.
\<close>

function valid_distance :: "nat \<Rightarrow> nat \<Rightarrow> real \<Rightarrow> nat \<Rightarrow> ('v, real) prog" where
  "valid_distance timeout_sec nr_samples distance counter w =
     (if distance < 0 \<and> counter < 10
      then (case read_distance timeout_sec nr_samples w of
              (Inl e, w') \<Rightarrow> (Inl e, w')
            | (Inr d, w') \<Rightarrow>
                (if counter + 1 \<ge> 10
                 then seq (unbound_name ''blink_underlighting'') (\<lambda>_. raise ValueError) w'
                 else valid_distance timeout_sec nr_samples d (counter + 1) w'))
      else (Inr distance, w))"
  by pat_completeness auto
termination
  by (relation "measure (\<lambda>(t, n, d, c, w). 10 - c)") auto

declare valid_distance.simps [simp del]

definition distance_reading_cm :: "real \<Rightarrow> nat \<Rightarrow> nat \<Rightarrow> nat \<Rightarrow> ('v, real \<times> bool) prog" where
  "distance_reading_cm collision_threshold_cm nr_readings nr_samples timeout_sec =
     seq (for_fold nr_readings
            (\<lambda>(readings_count, distance_total_cm).
               seq perf_counter (\<lambda>clock_check.
               seq (valid_distance timeout_sec nr_samples (- 1) 0) (\<lambda>distance.
               seq (sleep 0.01) (\<lambda>_.
               return (readings_count + 1, float64 (distance_total_cm + distance))))))
            (0 :: nat, 0 :: real))
       (\<lambda>(readings_count, distance_total_cm).
          if readings_count = 0 then raise ZeroDivisionError
          else (let distance_average_cm = float64 (distance_total_cm / real readings_count);
                    collision = (if distance_average_cm < collision_threshold_cm then True else False)
                in return (distance_average_cm, collision)))"

text \<open>The globals of the two ultrasonic scripts.\<close>

record globals_us =
  collision_us :: bool
  percent_us :: int
  distance_cm :: real

subsection \<open>Trilobot.py\<close>

definition COLLISION_THRESHOLD_CM_100 :: real where "COLLISION_THRESHOLD_CM_100 = 18"
definition START_LEFT_SPEED :: real where "START_LEFT_SPEED = 0.75"
definition START_RIGHT_SPEED :: real where "START_RIGHT_SPEED = 0.75"
definition TURN_SPEED_100 :: real where "TURN_SPEED_100 = 0.50"
definition TURN_TIME_SEC_100 :: real where "TURN_TIME_SEC_100 = 0.50"
definition TURN_RIGHT_PERCENT_100 :: int where "TURN_RIGHT_PERCENT_100 = 75"
definition DEFAULT_BLINK_COLOR_100 :: colour where "DEFAULT_BLINK_COLOR_100 = (0, 0, 127)"

definition assign_reading_100 :: "(globals_us, unit) prog" where
  "assign_reading_100 =
     seq (distance_reading_cm COLLISION_THRESHOLD_CM_100 MAX_NUM_READINGS MAX_NUM_SAMPLES
            MAX_TIMEOUT_SEC)
       (\<lambda>(d, c). assign (\<lambda>v. v\<lparr>distance_cm := d, collision_us := c\<rparr>))"

definition turn_pass_100 :: "(globals_us, unit) prog" where
  "turn_pass_100 =
     block
       [seq (get percent_us) (\<lambda>percent.
          if percent < TURN_RIGHT_PERCENT_100
          then block
                 [blink_underlights RIGHT_LIGHTS DEFAULT_BLINK_COLOR_100 2 DEFAULT_BLINK_RATE_SEC,
                  set_motor_speeds TURN_SPEED_100 (- TURN_SPEED_100)]
          else block
                 [blink_underlights LEFT_LIGHTS DEFAULT_BLINK_COLOR_100 2 DEFAULT_BLINK_RATE_SEC,
                  set_motor_speeds (- TURN_SPEED_100) TURN_SPEED_100]),
        sleep TURN_TIME_SEC_100,
        assign_reading_100]"

definition control_pass_100 :: "nat \<Rightarrow> (globals_us, unit) prog" where
  "control_pass_100 fuel =
     block
       [set_motor_speeds START_LEFT_SPEED START_RIGHT_SPEED,
        while_loop fuel (get (\<lambda>v. \<not> collision_us v)) assign_reading_100,
        set_motor_speeds (- TURN_SPEED_100) (- TURN_SPEED_100),
        sleep 2.0,
        seq (randint 1 100) (\<lambda>x. assign (\<lambda>v. v\<lparr>percent_us := x\<rparr>)),
        assign_reading_100,
        while_loop fuel (get collision_us) turn_pass_100,
        assign_reading_100]"

definition main_100 :: "nat \<Rightarrow> (globals_us, unit) prog" where
  "main_100 fuel =
     try_except_KeyboardInterrupt
       (while_loop fuel (return True) (control_pass_100 fuel))
       (set_motor_speeds 0 0)"

subsection \<open>Trilobot\_v060.py\<close>

definition COLLISION_THRESHOLD_CM_060 :: real where "COLLISION_THRESHOLD_CM_060 = 22"
definition NORMAL_LEFT_SPEED_060 :: real where "NORMAL_LEFT_SPEED_060 = 0.65"
definition NORMAL_RIGHT_SPEED_060 :: real where "NORMAL_RIGHT_SPEED_060 = 0.65"
definition TURN_SPEED_060 :: real where "TURN_SPEED_060 = 0.65"
definition TURN_TIME_SEC_060 :: real where "TURN_TIME_SEC_060 = 0.55"
definition TURN_RIGHT_PERCENT_060 :: int where "TURN_RIGHT_PERCENT_060 = 65"
definition BACKUP_LOOPS :: nat where "BACKUP_LOOPS = 5"
definition BACKUP_TIME_SEC :: real where "BACKUP_TIME_SEC = 0.15"

definition assign_reading_060 :: "(globals_us, unit) prog" where
  "assign_reading_060 =
     seq (distance_reading_cm COLLISION_THRESHOLD_CM_060 MAX_NUM_READINGS MAX_NUM_SAMPLES
            MAX_TIMEOUT_SEC)
       (\<lambda>(d, c). assign (\<lambda>v. v\<lparr>distance_cm := d, collision_us := c\<rparr>))"

definition turn_pass_060 :: "(globals_us, unit) prog" where
  "turn_pass_060 =
     block
       [seq (get percent_us) (\<lambda>percent.
          if percent < TURN_RIGHT_PERCENT_060
          then block
                 [blink_underlights RIGHT_LIGHTS BLUE DEFAULT_NUM_CYCLES DEFAULT_BLINK_RATE_SEC,
                  set_motor_speeds TURN_SPEED_060 (- TURN_SPEED_060)]
          else block
                 [blink_underlights LEFT_LIGHTS BLUE DEFAULT_NUM_CYCLES DEFAULT_BLINK_RATE_SEC,
                  set_motor_speeds (- TURN_SPEED_060) TURN_SPEED_060]),
        sleep TURN_TIME_SEC_060,
        assign_reading_060]"

definition react_060 :: "nat \<Rightarrow> (globals_us, unit) prog" where
  "react_060 fuel =
     seq (get collision_us) (\<lambda>collision.
       if collision
       then block
              [for_range BACKUP_LOOPS
                 (block
                    [blink_underlights REAR_LIGHTS YELLOW DEFAULT_NUM_CYCLES DEFAULT_BLINK_RATE_SEC,
                     set_motor_speeds (- TURN_SPEED_060) (- TURN_SPEED_060),
                     sleep BACKUP_TIME_SEC]),
               seq (randint 1 100) (\<lambda>x. assign (\<lambda>v. v\<lparr>percent_us := x\<rparr>)),
               while_loop fuel (get collision_us) turn_pass_060]
       else return ())"

definition control_pass_060 :: "nat \<Rightarrow> (globals_us, unit) prog" where
  "control_pass_060 fuel =
     block
       [set_motor_speeds NORMAL_LEFT_SPEED_060 NORMAL_RIGHT_SPEED_060,
        assign_reading_060,
        while_loop fuel (get (\<lambda>v. \<not> collision_us v))
          (block
             [blink_underlights FRONT_LIGHTS GREEN DEFAULT_NUM_CYCLES DEFAULT_BLINK_RATE_SEC,
              assign_reading_060,
              sleep 0.25]),
        react_060 fuel]"

definition main_060 :: "nat \<Rightarrow> (globals_us, unit) prog" where
  "main_060 fuel =
     try_except_KeyboardInterrupt
       (while_loop fuel (return True) (control_pass_060 fuel))
       (set_motor_speeds 0 0)"

section \<open>Sample worlds\<close>

text \<open>
  The sensor's buffer for a scene with an obstacle 150 mm ahead, 300 mm of room on the
  left and 100 mm on the right (the script flips the rows and the columns of the buffer).
  In \<open>quiet\<close> the sensor has data at every poll, every random float is 0.25, every random
  integer is 30 and every ultrasonic reading is 18 cm.
\<close>

definition obstacle_ahead :: "int list" where
  "obstacle_ahead =
     [100, 100, 150, 150, 150, 150, 300, 300,
      100, 100, 150, 150, 150, 150, 300, 300,
      100, 100, 150, 150, 150, 150, 300, 300,
      100, 100, 150, 150, 150, 150, 300, 300,
      100, 100, 150, 150, 150, 150, 300, 300,
      100, 100, 150, 150, 150, 150, 300, 300,
      100, 100, 150, 150, 150, 150, 300, 300,
      100, 100, 150, 150, 150, 150, 300, 300]"

definition quiet :: inputs where
  "quiet = \<lparr>sensor_ready = (\<lambda>_. True), sensor_data = (\<lambda>_. obstacle_ahead),
            random_values = (\<lambda>_. 0.25), randint_values = (\<lambda>_. 30), ultrasonic_values = (\<lambda>_. 18)\<rparr>"

text \<open>
  The worlds in which the scripts enter their try statements: nothing said to the robot
  yet, no interrupt on its way, and the module-level assignments made (the other globals
  are not bound yet; they are assigned before they are read).
\<close>

definition start :: "globals world" where
  "start = \<lparr>trace = [], irq = None, asked = 0, env = quiet,
     vars = \<lparr>DRIVE_ON = False, collision = False, left_distance_mm = 0, right_distance_mm = 0,
             center_distance_mm = 0, percent = 0, last_turn = 0\<rparr>\<rparr>"

definition start_us :: "globals_us world" where
  "start_us = \<lparr>trace = [], irq = None, asked = 0, env = quiet,
     vars = \<lparr>collision_us = False, percent_us = 0, distance_cm = 0\<rparr>\<rparr>"

text \<open>An ultrasonic sensor that never gets an echo: every reading is negative.\<close>

definition deaf :: inputs where
  "deaf = quiet\<lparr>ultrasonic_values := (\<lambda>_. - 1)\<rparr>"

text \<open>Trilobot\_v072.py with the drive switched on, and the scripts in front of an obstacle.\<close>

definition start_driving :: "globals world" where
  "start_driving = start\<lparr>vars := (vars start)\<lparr>DRIVE_ON := True\<rparr>\<rparr>"

definition start_collided :: "globals world" where
  "start_collided =
     start\<lparr>vars := (vars start)\<lparr>collision := True, left_distance_mm := 300,
                                  right_distance_mm := 100, center_distance_mm := 150\<rparr>\<rparr>"

definition start_us_collided :: "globals_us world" where
  "start_us_collided = start_us\<lparr>vars := (vars start_us)\<lparr>collision_us := True\<rparr>\<rparr>"

section \<open>Observations on runs\<close>

text \<open>The motor commands of a trace in the order they were issued, and the last of them.\<close>

fun motor_commands :: "event list \<Rightarrow> (real \<times> real) list" where
  "motor_commands [] = []"
| "motor_commands (Set_motor_speeds l r # evs) = (l, r) # motor_commands evs"
| "motor_commands (e # evs) = motor_commands evs"








text \<open>
  \<open>keeps T p\<close>: every run of \<open>p\<close>, however it ends, leaves a world related by \<open>T\<close> to
  the world it started in.
\<close>

definition keeps :: "('v world \<Rightarrow> 'v world \<Rightarrow> bool) \<Rightarrow> ('v, 'a) prog \<Rightarrow> bool" where
  "keeps T p = (\<forall>w. T w (snd (p w)))"


text \<open>Two such relations: the trace only grows, and a global variable keeps its value.\<close>

definition extends :: "'v world \<Rightarrow> 'v world \<Rightarrow> bool" where
  "extends w w' = (\<exists>evs. trace w' = trace w @ evs)"



text \<open>
  \<open>settles F strict p w\<close>: started in \<open>w\<close> with the operator's interrupt pending after
  fewer than \<open>F\<close> further steps, \<open>p\<close> does not run out of fuel; it raises
  KeyboardInterrupt exactly when the interrupt arrived, and otherwise the interrupt is
  still pending, no further away than before (nearer, when \<open>strict\<close>, if \<open>p\<close> returned).
\<close>

definition settles :: "nat \<Rightarrow> bool \<Rightarrow> ('v, 'a) prog \<Rightarrow> 'v world \<Rightarrow> bool" where
  "settles F strict p w =
     (\<forall>k. irq w = Some k \<and> k < F \<longrightarrow>
        (case p w of
           (Inl e, w') \<Rightarrow>
             e \<noteq> Out_of_fuel \<and>
             (if e = KeyboardInterrupt then irq w' = None else (\<exists>k'. irq w' = Some k' \<and> k' \<le> k))
         | (Inr x, w') \<Rightarrow> (\<exists>k'. irq w' = Some k' \<and> (if strict then k' < k else k' \<le> k))))"

section \<open>Properties of float rounding\<close>

lemma round_half_even_of_int [simp]: "round_half_even (of_int n) = n"
  by (simp add: round_half_even_def)

lemma round_half_even_mono: "x \<le> y \<Longrightarrow> round_half_even x \<le> round_half_even y"
proof -
  assume xy: "x \<le> y"
  have fl: "\<lfloor>x\<rfloor> \<le> \<lfloor>y\<rfloor>" using xy by (rule floor_mono)
  have ub: "round_half_even x \<le> \<lfloor>x\<rfloor> + 1" by (simp add: round_half_even_def Let_def)
  have lb: "\<lfloor>y\<rfloor> \<le> round_half_even y" by (simp add: round_half_even_def Let_def)
  show ?thesis
  proof (cases "\<lfloor>x\<rfloor> = \<lfloor>y\<rfloor>")
    case True
    then show ?thesis using xy by (auto simp: round_half_even_def Let_def)
  next
    case False
    with fl have "\<lfloor>x\<rfloor> + 1 \<le> \<lfloor>y\<rfloor>" by simp
    with ub lb show ?thesis by linarith
  qed
qed

lemma binade_eqI:
  "2 powr of_int e \<le> \<bar>x\<bar> \<Longrightarrow> \<bar>x\<bar> < 2 powr (of_int e + 1) \<Longrightarrow> binade x = e"
proof -
  assume a: "2 powr of_int e \<le> \<bar>x\<bar>" and b: "\<bar>x\<bar> < 2 powr (of_int e + 1)"
  have "0 < (2::real) powr of_int e" by simp
  with a have "0 < \<bar>x\<bar>" by linarith
  then show ?thesis
    unfolding binade_def using a b by (simp add: floor_log_eq_powr_iff)
qed

lemma binade_bounds:
  "x \<noteq> 0 \<Longrightarrow> 2 powr of_int (binade x) \<le> \<bar>x\<bar> \<and> \<bar>x\<bar> < 2 powr (of_int (binade x) + 1)"
  unfolding binade_def using floor_log_eq_powr_iff [of "\<bar>x\<bar>" 2 "\<lfloor>log 2 \<bar>x\<bar>\<rfloor>"] by simp

lemma binade_mono: "0 < x \<Longrightarrow> x \<le> y \<Longrightarrow> binade x \<le> binade y"
  unfolding binade_def by (intro floor_mono) simp


lemma powr_int_diff_nat:
  "q \<le> j \<Longrightarrow> (2::real) powr of_int j / 2 powr of_int q = 2 ^ nat (j - q)"
proof -
  assume qj: "q \<le> j"
  have "(2::real) powr of_int j / 2 powr of_int q = 2 powr (of_int j - of_int q)"
    by (simp only: powr_diff)
  also have "real_of_int j - real_of_int q = real (nat (j - q))"
    using qj by simp
  also have "(2::real) powr real (nat (j - q)) = 2 ^ nat (j - q)"
    by (rule powr_realpow) simp
  finally show ?thesis .
qed

lemma float64_on_grid:
  assumes "x \<noteq> 0" and "ulp_exponent x \<le> j" and that: "x = of_int m * 2 powr of_int j"
  shows "float64 (of_int m * 2 powr of_int j) = of_int m * 2 powr of_int j"
proof -
  let ?q = "ulp_exponent x"
  have "x / 2 powr of_int ?q = of_int m * (2 powr of_int j / 2 powr of_int ?q)"
    using that by simp
  also have "\<dots> = of_int (m * 2 ^ nat (j - ?q))"
    using assms(2) by (simp add: powr_int_diff_nat)
  finally have "of_int (round_half_even (x / 2 powr of_int ?q)) = x / 2 powr of_int ?q"
    by (simp only: round_half_even_of_int)
  then have "float64 x = x"
    using assms(1) by (simp add: float64_def)
  with that show ?thesis by simp
qed

lemma float64_representable:
  assumes "\<bar>m\<bar> < 2 ^ 53" and "- 1074 \<le> j"
  shows "float64 (of_int m * 2 powr of_int j) = of_int m * 2 powr of_int j"
proof (cases "m = 0")
  case True
  then show ?thesis by (simp add: float64_def)
next
  case False
  let ?x = "real_of_int m * 2 powr of_int j"
  from False have nz: "?x \<noteq> 0" by simp
  have "\<bar>?x\<bar> = real_of_int \<bar>m\<bar> * 2 powr of_int j" by (simp add: abs_mult)
  also have "\<dots> < 2 ^ 53 * 2 powr of_int j"
    using assms(1) by (intro mult_strict_right_mono) (simp_all add: of_int_less_numeral_power_cancel_iff)
  also have "\<dots> = 2 powr (of_int (53 + j))"
  proof -
    have "(2::real) ^ 53 = 2 powr 53" by simp
    then show ?thesis by (simp only: of_int_add of_int_numeral powr_add)
  qed
  finally have "2 powr of_int (binade ?x) < (2::real) powr of_int (53 + j)"
    using binade_bounds [OF nz] by linarith
  then have "binade ?x < 53 + j" by simp
  with assms(2) have "ulp_exponent ?x \<le> j" by (simp add: ulp_exponent_def)
  from float64_on_grid [OF nz this refl] show ?thesis .
qed

lemma float64_of_int:
  assumes "\<bar>n\<bar> \<le> 2 ^ 53"
  shows "float64 (of_int n) = of_int n"
proof (cases "\<bar>n\<bar> < 2 ^ 53")
  case True
  from float64_representable [OF True, of 0] show ?thesis by simp
next
  case False
  with assms have "n = 2 ^ 53 \<or> n = - (2 ^ 53)" by linarith
  then show ?thesis
  proof
    assume "n = 2 ^ 53"
    with float64_representable [of "2 ^ 52" 1] show ?thesis by simp
  next
    assume "n = - (2 ^ 53)"
    with float64_representable [of "- (2 ^ 52)" 1] show ?thesis by simp
  qed
qed


lemma float64_unfold:
  "x \<noteq> 0 \<Longrightarrow>
   float64 x = of_int (round_half_even (x / 2 powr of_int (ulp_exponent x)))
                 * 2 powr of_int (ulp_exponent x)"
  by (simp add: float64_def)

lemma float64_nonneg: "0 \<le> x \<Longrightarrow> 0 \<le> float64 x"
proof (cases "x = 0")
  case True
  then show ?thesis by (simp add: float64_def)
next
  case False
  assume "0 \<le> x"
  then have "0 \<le> x / 2 powr of_int (ulp_exponent x)" by simp
  from round_half_even_mono [OF this] have "0 \<le> round_half_even (x / 2 powr of_int (ulp_exponent x))"
    using round_half_even_of_int [of 0] by simp
  then show ?thesis by (simp add: float64_unfold [OF False])
qed

lemma float64_le_power:
  assumes "0 < x" and "x \<le> 2 powr of_int (ulp_exponent x + 53)"
  shows "float64 x \<le> 2 powr of_int (ulp_exponent x + 53)"
proof -
  let ?q = "ulp_exponent x"
  have split: "(2::real) powr of_int (?q + 53) = 2 ^ 53 * 2 powr of_int ?q"
  proof -
    have "(2::real) ^ 53 = 2 powr 53" by simp
    then show ?thesis by (simp only: of_int_add of_int_numeral powr_add mult.commute)
  qed
  have "x / 2 powr of_int ?q \<le> 2 powr of_int (?q + 53) / 2 powr of_int ?q"
    using assms(2) by (intro divide_right_mono) simp_all
  also have "\<dots> = of_int (2 ^ 53)" by (simp only: split) simp
  finally have "round_half_even (x / 2 powr of_int ?q) \<le> round_half_even (of_int (2 ^ 53))"
    by (rule round_half_even_mono)
  then have "round_half_even (x / 2 powr of_int ?q) \<le> 2 ^ 53"
    by (simp only: round_half_even_of_int)
  then have "real_of_int (round_half_even (x / 2 powr of_int ?q)) \<le> 2 ^ 53"
    by (simp only: of_int_le_numeral_power_cancel_iff)
  then have "real_of_int (round_half_even (x / 2 powr of_int ?q)) * 2 powr of_int ?q
             \<le> 2 ^ 53 * 2 powr of_int ?q"
    by (intro mult_right_mono) simp_all
  moreover from assms(1) have "x \<noteq> 0" by simp
  ultimately show ?thesis by (simp only: split float64_unfold [of x] not_False_eq_True)
qed

lemma float64_ge_power:
  assumes "0 < x" and "2 powr of_int (ulp_exponent x + 52) \<le> x"
  shows "2 powr of_int (ulp_exponent x + 52) \<le> float64 x"
proof -
  let ?q = "ulp_exponent x"
  have split: "(2::real) powr of_int (?q + 52) = 2 ^ 52 * 2 powr of_int ?q"
  proof -
    have "(2::real) ^ 52 = 2 powr 52" by simp
    then show ?thesis by (simp only: of_int_add of_int_numeral powr_add mult.commute)
  qed
  have "2 powr of_int (?q + 52) / 2 powr of_int ?q \<le> x / 2 powr of_int ?q"
    using assms(2) by (intro divide_right_mono) simp_all
  moreover have "(2::real) powr of_int (?q + 52) / 2 powr of_int ?q = of_int (2 ^ 52)" by (simp only: split) simp
  ultimately have "of_int (2 ^ 52) \<le> x / 2 powr of_int ?q" by simp
  then have "round_half_even (of_int (2 ^ 52)) \<le> round_half_even (x / 2 powr of_int ?q)"
    by (rule round_half_even_mono)
  then have "2 ^ 52 \<le> round_half_even (x / 2 powr of_int ?q)"
    by (simp only: round_half_even_of_int)
  then have "2 ^ 52 \<le> real_of_int (round_half_even (x / 2 powr of_int ?q))"
    by (simp only: numeral_power_le_of_int_cancel_iff)
  then have "2 ^ 52 * 2 powr of_int ?q
             \<le> real_of_int (round_half_even (x / 2 powr of_int ?q)) * 2 powr of_int ?q"
    by (intro mult_right_mono) simp_all
  moreover from assms(1) have "x \<noteq> 0" by simp
  ultimately show ?thesis by (simp only: split float64_unfold [of x] not_False_eq_True)
qed

lemma float64_mono_pos:
  assumes "0 < x" and "x \<le> y"
  shows "float64 x \<le> float64 y"
proof -
  from assms have y: "0 < y" by simp
  from binade_mono [OF assms] have q: "ulp_exponent x \<le> ulp_exponent y"
    by (simp add: ulp_exponent_def)
  show ?thesis
  proof (cases "ulp_exponent x = ulp_exponent y")
    case True
    have "x / 2 powr of_int (ulp_exponent y) \<le> y / 2 powr of_int (ulp_exponent y)"
      using assms(2) by (intro divide_right_mono) simp_all
    then have "round_half_even (x / 2 powr of_int (ulp_exponent y))
               \<le> round_half_even (y / 2 powr of_int (ulp_exponent y))"
      by (rule round_half_even_mono)
    then have "real_of_int (round_half_even (x / 2 powr of_int (ulp_exponent y))) * 2 powr of_int (ulp_exponent y)
               \<le> real_of_int (round_half_even (y / 2 powr of_int (ulp_exponent y))) * 2 powr of_int (ulp_exponent y)"
      by (intro mult_right_mono) simp_all
    with assms(1) y True show ?thesis by (simp add: float64_unfold)
  next
    case False
    with q have lt: "ulp_exponent x + 53 \<le> ulp_exponent y + 52" by simp
    have bx: "binade x \<le> ulp_exponent x + 52" by (simp add: ulp_exponent_def)
    from assms(1) binade_bounds [of x] have "x < 2 powr (of_int (binade x) + 1)" by simp
    also have "\<dots> = 2 powr of_int (binade x + 1)" by simp
    also have "\<dots> \<le> 2 powr of_int (ulp_exponent x + 53)"
      using bx by (intro powr_mono) simp_all
    finally have "x \<le> 2 powr of_int (ulp_exponent x + 53)" by simp
    from float64_le_power [OF assms(1) this]
    have "float64 x \<le> 2 powr of_int (ulp_exponent x + 53)" .
    also have "\<dots> \<le> 2 powr of_int (ulp_exponent y + 52)"
      using lt by (intro powr_mono) simp_all
    finally have low: "float64 x \<le> 2 powr of_int (ulp_exponent y + 52)" .
    from False q have "ulp_exponent y + 52 = binade y"
      by (simp add: ulp_exponent_def max_def split: if_splits)
    with y binade_bounds [of y] have "2 powr of_int (ulp_exponent y + 52) \<le> y" by simp
    from float64_ge_power [OF y this] low show ?thesis by simp
  qed
qed

lemma float64_mono: "0 \<le> x \<Longrightarrow> x \<le> y \<Longrightarrow> float64 x \<le> float64 y"
proof (cases "x = 0")
  case True
  assume "0 \<le> x" "x \<le> y"
  with True float64_nonneg [of y] show ?thesis by (simp add: float64_def)
next
  case False
  assume "0 \<le> x" "x \<le> y"
  with False show ?thesis by (intro float64_mono_pos) simp_all
qed

lemma float64_nat: "n \<le> 2 ^ 53 \<Longrightarrow> float64 (real n) = real n"
  using float64_of_int [of "int n"] by simp

lemma float64_tie_2_53: "float64 9007199254740993 = 9007199254740992"
proof -
  have b: "binade 9007199254740993 = 53"
    by (rule binade_eqI) simp_all
  show ?thesis
    by (simp add: float64_def ulp_exponent_def b round_half_even_def)
qed

lemma float64_below_next_integer:
  fixes q n :: nat
  assumes "0 < n" and "(q + 1) * n \<le> 2 ^ 52" and "x \<le> real q + 1 - 1 / real n" and "0 \<le> x"
  shows "float64 x < real q + 1"
proof -
  from assms(1) have "1 \<le> n" by simp
  from ex_power_ivl1 [OF _ this, of 2] obtain j where j: "2 ^ j \<le> n" "n < 2 ^ (j + 1)" by auto
  let ?k = "j + 1"
  let ?m = "int ((q + 1) * 2 ^ ?k) - 1"
  have "(q + 1) * 2 ^ ?k = 2 * ((q + 1) * 2 ^ j)" by simp
  also have "\<dots> \<le> 2 * ((q + 1) * n)" by (intro mult_le_mono2 j(1))
  also have "\<dots> \<le> 2 * 2 ^ 52" using assms(2) by simp
  finally have big: "(q + 1) * 2 ^ ?k \<le> 2 ^ 53" by simp
  have m: "\<bar>?m\<bar> < 2 ^ 53"
  proof -
    from big have "int ((q + 1) * 2 ^ ?k) \<le> int (2 ^ 53)" by (simp only: of_nat_le_iff)
    then have "int ((q + 1) * 2 ^ ?k) \<le> 2 ^ 53" by simp
    moreover have "0 \<le> int ((q + 1) * 2 ^ ?k)" by simp
    moreover have "1 \<le> int ((q + 1) * 2 ^ ?k)"
    proof -
      have "0 < (q + 1) * 2 ^ ?k" by simp
      then show ?thesis by linarith
    qed
    ultimately show ?thesis by linarith
  qed
  have "(2::nat) ^ ?k \<le> (q + 1) * 2 ^ ?k" by simp
  with big have "(2::nat) ^ ?k \<le> 2 ^ 53" by linarith
  from power_le_imp_le_exp [OF _ this] have "?k \<le> 53" by simp
  then have k: "- 1074 \<le> - int ?k" by simp
  let ?y = "real_of_int ?m * 2 powr of_int (- int ?k)"
  have pk: "(2::real) powr of_int (- int ?k) = 1 / 2 ^ ?k"
  proof -
    have "real_of_int (- int ?k) = - real ?k" by simp
    then have "(2::real) powr of_int (- int ?k) = 2 powr (- real ?k)" by (simp only:)
    also have "\<dots> = 1 / 2 powr real ?k" by (rule powr_minus_divide)
    also have "(2::real) powr real ?k = 2 ^ ?k" by (rule powr_realpow) simp
    finally show ?thesis .
  qed
  have y: "?y = real q + 1 - 1 / 2 ^ ?k"
    unfolding pk by (simp add: field_simps del: power_Suc)
  have "1 / (2::real) ^ ?k \<le> 1 / real n"
    using j(2) assms(1) by (intro divide_left_mono) (simp_all add: of_nat_less_numeral_power_cancel_iff less_imp_le del: power_Suc)
  with assms(3) have "x \<le> ?y" unfolding y by linarith
  from float64_mono [OF assms(4) this] float64_representable [OF m k]
  have "float64 x \<le> ?y" by simp
  moreover have "?y < real q + 1" unfolding y by simp
  ultimately show ?thesis by linarith
qed

lemma float64_quotient_floor:
  fixes s n :: nat
  assumes "0 < n" and "s + n \<le> 2 ^ 52"
  shows "\<lfloor>float64 (real s / real n)\<rfloor> = int (s div n)"
proof -
  let ?q = "s div n"
  have qs: "?q * n \<le> s" by simp
  then have "?q \<le> s" using assms(1) by (meson div_le_dividend)
  moreover have "(2::nat) ^ 52 \<le> 2 ^ 53" by simp
  ultimately have "?q \<le> 2 ^ 53" using assms(2) by linarith
  from float64_nat [OF this] have fq: "float64 (real ?q) = real ?q" .
  have "real ?q * real n \<le> real s" using qs by (metis of_nat_mult of_nat_le_iff)
  then have low: "real ?q \<le> real s / real n"
    using assms(1) by (simp add: pos_le_divide_eq)
  from float64_mono [OF _ low] fq have lower: "real ?q \<le> float64 (real s / real n)" by simp
  have "s < (?q + 1) * n" using assms(1) by (metis Suc_eq_plus1 dividend_less_div_times mult.commute mult_Suc)
  then have "s + 1 \<le> (?q + 1) * n" by simp
  then have "real s + 1 \<le> (real ?q + 1) * real n"
    by (metis of_nat_add of_nat_mult of_nat_le_iff of_nat_1)
  then have "real s \<le> (real ?q + 1 - 1 / real n) * real n"
    using assms(1) by (simp add: algebra_simps)
  then have up: "real s / real n \<le> real ?q + 1 - 1 / real n"
    using assms(1) by (simp add: pos_divide_le_eq)
  have "(?q + 1) * n \<le> s + n" using qs by simp
  with assms(2) have "(?q + 1) * n \<le> 2 ^ 52" by linarith
  from float64_below_next_integer [OF assms(1) this up]
  have upper: "float64 (real s / real n) < real ?q + 1" by simp
  from lower upper show ?thesis by (simp add: floor_eq_iff)
qed


section \<open>Floats that the sample runs meet\<close>

lemma float64_zero: "float64 0 = 0"
  by (simp add: float64_def)

lemma float64_one: "float64 1 = 1"
  using float64_of_int [of 1] by simp

lemma float64_numeral: "(numeral k :: int) \<le> 2 ^ 53 \<Longrightarrow> float64 (numeral k) = numeral k"
  using float64_of_int [of "numeral k"] by simp

lemma float64_neg_numeral:
  "(numeral k :: int) \<le> 2 ^ 53 \<Longrightarrow> float64 (- numeral k) = - numeral k"
  using float64_of_int [of "- numeral k"] by simp

lemma float64_neg_one: "float64 (- 1) = - 1"
  using float64_of_int [of "- 1"] by simp

lemma float64_half: "float64 (1 / 2) = 1 / 2"
  using float64_representable [of 1 "- 1"] by (simp add: powr_minus_divide)

lemma float64_quarter: "float64 (1 / 4) = 1 / 4"
  using float64_representable [of 1 "- 2"] by (simp add: powr_minus_divide)

lemmas float_values =
  float64_zero float64_one float64_numeral float64_neg_numeral float64_neg_one float64_half
  float64_quarter

lemma py_float_exact: "\<bar>n\<bar> \<le> 2 ^ 53 \<Longrightarrow> py_float n = Inr (of_int n)"
proof -
  assume n: "\<bar>n\<bar> \<le> 2 ^ 53"
  have "(2::int) ^ 53 < 2 ^ 1024 - 2 ^ 970" by simp
  with n have "\<not> \<bar>n\<bar> \<ge> 2 ^ 1024 - 2 ^ 970" by linarith
  with float64_of_int [OF n] show ?thesis by (simp only: py_float_def if_False)
qed

lemma float_sum_from:
  "a + sum_list xs \<le> 2 ^ 53 \<Longrightarrow>
   foldl (\<lambda>total x. float64 (total + x)) (real a) (map (\<lambda>x. float64 (real x)) xs)
   = real (a + sum_list xs)"
proof (induction xs arbitrary: a)
  case Nil
  show ?case by simp
next
  case (Cons x xs)
  from Cons.prems have x: "x \<le> 2 ^ 53" and ax: "a + x \<le> 2 ^ 53"
    and rest: "(a + x) + sum_list xs \<le> 2 ^ 53" by simp_all
  have "float64 (real a + float64 (real x)) = real (a + x)"
    using float64_nat [OF x] float64_nat [OF ax] by simp
  with Cons.IH [OF rest] show ?case by (simp add: add.assoc)
qed

lemma float_sum_exact:
  "sum_list xs \<le> 2 ^ 53 \<Longrightarrow> float_sum (map (\<lambda>x. float64 (real x)) xs) = real (sum_list xs)"
  using float_sum_from [of 0 xs] by (simp add: float_sum_def)

section \<open>Properties of zone extraction\<close>

lemma append_each_all_ok:
  "(\<And>x. x \<in> set xs \<Longrightarrow> f x = Inr (g x)) \<Longrightarrow> append_each f acc xs = Inr (acc @ map g xs)"
  by (induction xs arbitrary: acc) simp_all

lemma append_each_Inr:
  "append_each f acc xs = Inr ys \<Longrightarrow> \<exists>zs. ys = acc @ zs \<and> map f xs = map Inr zs"
proof (induction xs arbitrary: acc)
  case Nil
  then show ?case by simp
next
  case (Cons x xs)
  from Cons.prems obtain y where y: "f x = Inr y" and rest: "append_each f (acc @ [y]) xs = Inr ys"
    by (cases "f x") auto
  from Cons.IH [OF rest] obtain zs where "ys = (acc @ [y]) @ zs" and "map f xs = map Inr zs"
    by blast
  with y have "ys = acc @ (y # zs) \<and> map f (x # xs) = map Inr (y # zs)" by simp
  then show ?case by blast
qed

lemma append_each_length:
  "append_each f [] xs = Inr ys \<Longrightarrow> length ys = length xs"
proof -
  assume "append_each f [] xs = Inr ys"
  from append_each_Inr [OF this] obtain zs where "ys = zs" and m: "map f xs = map Inr zs" by auto
  from m have "length xs = length zs" by (rule map_eq_imp_length_eq)
  with \<open>ys = zs\<close> show ?thesis by simp
qed

lemma append_each_nth:
  "append_each f [] xs = Inr ys \<Longrightarrow> k < length xs \<Longrightarrow> f (xs ! k) = Inr (ys ! k)"
proof -
  assume a: "append_each f [] xs = Inr ys" and k: "k < length xs"
  from append_each_Inr [OF a] have m: "map f xs = map Inr ys" by auto
  from append_each_length [OF a] k have "k < length ys" by simp
  with k m show ?thesis by (metis nth_map)
qed

lemma py_range_length: "length (py_range a (b + 1)) = nat (b - a + 1)"
  by (simp add: py_range_def)

lemma py_range_nth: "k < nat (b - a + 1) \<Longrightarrow> py_range a (b + 1) ! k = a + int k"
  by (simp add: py_range_def)

lemma py_range_set: "set (py_range a (b + 1)) = {a..b}"
  by (simp add: py_range_def)

lemma frame_dims:
  "is_frame rows \<Longrightarrow> nr_rows_cols (Ndarray2 rows) = Inr (8, 8)"
  by (cases rows) (auto simp: is_frame_def nr_rows_cols_def getitem_def)

lemma frame_item2:
  "is_frame rows \<Longrightarrow> 0 \<le> r \<Longrightarrow> r \<le> 7 \<Longrightarrow> 0 \<le> c \<Longrightarrow> c \<le> 7 \<Longrightarrow>
   item2 (Ndarray2 rows) r c = Inr (rows ! nat r ! nat c)"
  by (auto simp: is_frame_def item2_def getitem_def list_all_length)

lemma frame0_is_frame: "is_frame frame0"
  by (simp add: is_frame_def frame0_def)



section \<open>The turn decision\<close>

text \<open>
  With both zone averages at \<open>2 ^ 53\<close>, tolerance 1 and the random value 70, the written
  rules give a left turn: neither average exceeds the other by the tolerance, and 70 is
  not below 50. The script turns right: the float sum \<open>2 ^ 53 + 1.0\<close> is a tie between
  two floats and rounds to \<open>2 ^ 53\<close>, so its first comparison holds.
\<close>

theorem turn_decision_rounded_sum_counterexample:
  "turn_decision (2 ^ 53) (2 ^ 53) 1 70 = Inr TurnRight
   \<and> real_of_int (2 ^ 53) < real_of_int (2 ^ 53) + 1
   \<and> (70 :: real) \<ge> 50"
  by (simp add: turn_decision_def py_float_exact float64_tie_2_53)

text \<open>
  Claim C1, as amended. For zone averages and a whole-number tolerance \<open>t\<close> such that the
  averages and the sums \<open>left + t\<close> and \<open>right + t\<close> have magnitude at most \<open>2 ^ 53\<close> (the
  integers that floats count exactly; the script's tolerance is 1.0), and for every random
  value, the reaction loop's chain raises no error and picks the first matching rule of:
  right \<open>\<ge>\<close> left + t gives a right turn; else left \<open>\<ge>\<close> right + t gives a left turn; else
  a random value below 50 gives a right turn; else a left turn. The chain's last branch
  (\<open>backup()\<close>) is never taken. With both averages 50 and tolerance 1, the value 30 turns
  right and 70 left.
\<close>

theorem turn_decision_first_match:
  assumes "\<bar>left_average\<bar> \<le> 2 ^ 53" and "\<bar>right_average\<bar> \<le> 2 ^ 53"
    and "\<bar>left_average + t\<bar> \<le> 2 ^ 53" and "\<bar>right_average + t\<bar> \<le> 2 ^ 53"
  shows "turn_decision left_average right_average (of_int t) r =
           Inr (if right_average \<ge> left_average + t then TurnRight
                else if left_average \<ge> right_average + t then TurnLeft
                else if r < 50 then TurnRight
                else TurnLeft)"
proof -
  have l: "float64 (real_of_int left_average + real_of_int t) = real_of_int (left_average + t)"
    using float64_of_int [OF assms(3)] by simp
  have r: "float64 (real_of_int right_average + real_of_int t) = real_of_int (right_average + t)"
    using float64_of_int [OF assms(4)] by simp
  show ?thesis
    unfolding turn_decision_def py_float_exact [OF assms(1)] py_float_exact [OF assms(2)]
    by (simp add: l r del: of_int_add)
qed

theorem turn_decision_first_match_witness:
  "turn_decision 50 50 1 30 = Inr TurnRight \<and> turn_decision 50 50 1 70 = Inr TurnLeft
   \<and> turn_decision 120 300 1 70 = Inr TurnRight \<and> turn_decision 300 120 1 30 = Inr TurnLeft"
  using turn_decision_first_match [of 50 50 1 30] turn_decision_first_match [of 50 50 1 70]
    turn_decision_first_match [of 120 300 1 70] turn_decision_first_match [of 300 120 1 30]
  by simp

text \<open>
  With 100 mm on the left and 50 mm on the right the first rule does not match and the
  second does: the robot turns to the side with more room, the left.
\<close>

theorem turn_decision_left_100_right_50_counterexample:
  "turn_decision 100 50 1 0 \<noteq> Inr TurnRight"
  by (simp add: turn_decision_def py_float_exact float_values)

text \<open>
  Claim C7, as amended. With left average 100, right average 50 and tolerance 1 the
  decision is a left turn for every random value: the asymmetry rule fires regardless of
  randomness.
\<close>

theorem turn_decision_left_100_right_50:
  "turn_decision 100 50 1 r = Inr TurnLeft"
  by (simp add: turn_decision_def py_float_exact float_values)

lemma extract_row_ok:
  assumes "is_frame rows" "0 \<le> r" "r \<le> 7" "0 \<le> sc" "ec \<le> 7"
  shows "append_each (\<lambda>c. item2 (Ndarray2 rows) r c) [] (py_range sc (ec + 1))
         = Inr (map (\<lambda>c. rows ! nat r ! nat c) (py_range sc (ec + 1)))"
proof -
  have "\<And>c. c \<in> set (py_range sc (ec + 1)) \<Longrightarrow> item2 (Ndarray2 rows) r c = Inr (rows ! nat r ! nat c)"
    using assms by (simp add: py_range_set frame_item2)
  from append_each_all_ok [of "py_range sc (ec + 1)" "\<lambda>c. item2 (Ndarray2 rows) r c" "\<lambda>c. rows ! nat r ! nat c" "[]", OF this]
  show ?thesis by simp
qed

lemma np_extract_frame_ok:
  assumes "is_frame rows" "0 \<le> sr" "er \<le> 7" "0 \<le> sc" "ec \<le> 7" "sr \<le> 8" "sc \<le> 8" "0 \<le> er" "0 \<le> ec"
  shows "np_extract (Array (Ndarray2 rows)) sr sc er ec
         = Inr (map (\<lambda>r. map (\<lambda>c. rows ! nat r ! nat c) (py_range sc (ec + 1))) (py_range sr (er + 1)))"
proof -
  have "\<And>r. r \<in> set (py_range sr (er + 1)) \<Longrightarrow>
          append_each (\<lambda>c. item2 (Ndarray2 rows) r c) [] (py_range sc (ec + 1))
          = Inr (map (\<lambda>c. rows ! nat r ! nat c) (py_range sc (ec + 1)))"
    using assms by (intro extract_row_ok) (simp_all add: py_range_set)
  from append_each_all_ok [of "py_range sr (er + 1)" _ _ "[]", OF this]
  show ?thesis using assms by (simp add: np_extract_def frame_dims)
qed

text \<open>
  Claim C3. For an 8 x 8 frame and bounds with \<open>0 \<le> start \<le> end \<le> 7\<close> on both axes,
  \<open>np_extract\<close> succeeds and returns \<open>end_row - start_row + 1\<close> rows of
  \<open>end_col - start_col + 1\<close> samples; the sample at relative position \<open>(i, j)\<close> is the
  frame's cell \<open>(start_row + i, start_col + j)\<close>.
\<close>

theorem np_extract_in_range:
  assumes "is_frame frame"
    and "0 \<le> start_row" "start_row \<le> end_row" "end_row \<le> 7"
    and "0 \<le> start_col" "start_col \<le> end_col" "end_col \<le> 7"
  shows "\<exists>mm. np_extract (Array (Ndarray2 frame)) start_row start_col end_row end_col = Inr mm
           \<and> length mm = nat (end_row - start_row + 1)
           \<and> (\<forall>i < nat (end_row - start_row + 1).
                 length (mm ! i) = nat (end_col - start_col + 1)
                 \<and> (\<forall>j < nat (end_col - start_col + 1).
                       mm ! i ! j = frame ! (nat start_row + i) ! (nat start_col + j)))"
proof -
  let ?mm = "map (\<lambda>r. map (\<lambda>c. frame ! nat r ! nat c) (py_range start_col (end_col + 1)))
                 (py_range start_row (end_row + 1))"
  have "np_extract (Array (Ndarray2 frame)) start_row start_col end_row end_col = Inr ?mm"
    using assms by (intro np_extract_frame_ok) simp_all
  moreover have "length ?mm = nat (end_row - start_row + 1)"
    by (simp add: py_range_length)
  moreover have "\<forall>i < nat (end_row - start_row + 1).
                 length (?mm ! i) = nat (end_col - start_col + 1)
                 \<and> (\<forall>j < nat (end_col - start_col + 1).
                       ?mm ! i ! j = frame ! (nat start_row + i) ! (nat start_col + j))"
    using assms by (simp add: py_range_length py_range_nth nat_add_distrib)
  ultimately show ?thesis by blast
qed

theorem np_extract_in_range_witness:
  "\<exists>mm. np_extract (Array (Ndarray2 frame0)) 2 2 5 5 = Inr mm
           \<and> length mm = 4
           \<and> (\<forall>i < 4. length (mm ! i) = 4
                 \<and> (\<forall>j < 4. mm ! i ! j = frame0 ! (2 + i) ! (2 + j)))"
  using np_extract_in_range [of frame0 2 5 2 5] frame0_is_frame by simp

lemma np_extract_center_zone:
  "np_extract (Array (Ndarray2 frame0)) 2 2 5 5
   = Inr [[22, 23, 24, 25], [32, 33, 34, 35], [42, 43, 44, 45], [52, 53, 54, 55]]"
  by (simp add: np_extract_def nr_rows_cols_def item2_def getitem_def frame0_def py_range_def upto.simps)

text \<open>
  A request with all coordinates inside the frame and \<open>start_row > end_row\<close> is not
  refused: the row loop runs over an empty range and the empty list is returned. And a
  request for rows 0 to 8 is not refused as out of range either: the validity test
  compares with \<open>\<le> _nr_rows\<close> and \<open>\<le> _nr_cols\<close>, so a coordinate of 8 passes it, and
  reading row 8 of the frame then raises IndexError.
\<close>

theorem np_extract_not_refused_counterexample:
  "np_extract (Array (Ndarray2 frame0)) 5 2 2 5 = Inr []
   \<and> np_extract (Array (Ndarray2 frame0)) 0 0 8 7 = Inl IndexError"
  by (simp add: np_extract_def nr_rows_cols_def item2_def getitem_def frame0_def py_range_def
      upto.simps)

lemma np_extract_no_rows:
  assumes "is_frame frame" and "0 \<le> end_row" "end_row < start_row" "start_row \<le> 7"
    and "0 \<le> start_col" "start_col \<le> 7" "0 \<le> end_col" "end_col \<le> 7"
  shows "np_extract (Array (Ndarray2 frame)) start_row start_col end_row end_col = Inr []"
  using assms by (simp add: np_extract_def frame_dims py_range_def)

lemma np_extract_empty_rows:
  assumes "is_frame frame" and "0 \<le> start_row" "start_row \<le> end_row" "end_row \<le> 7"
    and "0 \<le> end_col" "end_col < start_col" "start_col \<le> 7"
  shows "np_extract (Array (Ndarray2 frame)) start_row start_col end_row end_col
         = Inr (replicate (nat (end_row - start_row + 1)) [])"
proof -
  have "np_extract (Array (Ndarray2 frame)) start_row start_col end_row end_col
        = Inr (map (\<lambda>r. map (\<lambda>c. frame ! nat r ! nat c) (py_range start_col (end_col + 1)))
                 (py_range start_row (end_row + 1)))"
    using assms by (intro np_extract_frame_ok) simp_all
  moreover have "py_range start_col (end_col + 1) = []"
    using assms by (simp add: py_range_def)
  ultimately show ?thesis
    by (simp add: map_replicate_const py_range_length)
qed

text \<open>
  Claim C2, as amended. For an 8 x 8 frame, a request with a coordinate that is below 0,
  or above 7 and other than 8, makes \<open>np_extract\<close> raise ValueError, and nothing is
  returned. (A coordinate of exactly 8 is outside the frame too, but it passes the
  validity test; what a request does whose only coordinates outside the frame are 8 is
  left open here.) A request with all coordinates in 0..7 and a start after its end is
  not an error: with \<open>start_row > end_row\<close> there are no rows and the empty list is
  returned, and with \<open>start_col > end_col\<close> every requested row is returned empty. Whatever
  the bounds, a result that is returned is never truncated: it has one row per requested
  row index and one sample per requested column index.
\<close>

theorem np_extract_out_of_range:
  assumes "is_frame frame"
  shows "(start_row < 0 \<or> start_col < 0 \<or> end_row < 0 \<or> end_col < 0
          \<or> (start_row > 7 \<and> start_row \<noteq> 8) \<or> (start_col > 7 \<and> start_col \<noteq> 8)
          \<or> (end_row > 7 \<and> end_row \<noteq> 8) \<or> (end_col > 7 \<and> end_col \<noteq> 8)
          \<longrightarrow> np_extract (Array (Ndarray2 frame)) start_row start_col end_row end_col = Inl ValueError)
       \<and> (0 \<le> end_row \<and> end_row < start_row \<and> start_row \<le> 7
            \<and> 0 \<le> start_col \<and> start_col \<le> 7 \<and> 0 \<le> end_col \<and> end_col \<le> 7
          \<longrightarrow> np_extract (Array (Ndarray2 frame)) start_row start_col end_row end_col = Inr [])
       \<and> (0 \<le> start_row \<and> start_row \<le> end_row \<and> end_row \<le> 7
            \<and> 0 \<le> end_col \<and> end_col < start_col \<and> start_col \<le> 7
          \<longrightarrow> np_extract (Array (Ndarray2 frame)) start_row start_col end_row end_col
              = Inr (replicate (nat (end_row - start_row + 1)) []))
       \<and> (\<forall>mm. np_extract (Array (Ndarray2 frame)) start_row start_col end_row end_col = Inr mm
            \<longrightarrow> length mm = nat (end_row - start_row + 1)
              \<and> list_all (\<lambda>row. length row = nat (end_col - start_col + 1)) mm)"
proof (intro conjI impI allI)
  assume "start_row < 0 \<or> start_col < 0 \<or> end_row < 0 \<or> end_col < 0
          \<or> (start_row > 7 \<and> start_row \<noteq> 8) \<or> (start_col > 7 \<and> start_col \<noteq> 8)
          \<or> (end_row > 7 \<and> end_row \<noteq> 8) \<or> (end_col > 7 \<and> end_col \<noteq> 8)"
  then show "np_extract (Array (Ndarray2 frame)) start_row start_col end_row end_col = Inl ValueError"
    using assms by (auto simp: np_extract_def frame_dims)
next
  assume "0 \<le> end_row \<and> end_row < start_row \<and> start_row \<le> 7
            \<and> 0 \<le> start_col \<and> start_col \<le> 7 \<and> 0 \<le> end_col \<and> end_col \<le> 7"
  then show "np_extract (Array (Ndarray2 frame)) start_row start_col end_row end_col = Inr []"
    using assms by (intro np_extract_no_rows) simp_all
next
  assume "0 \<le> start_row \<and> start_row \<le> end_row \<and> end_row \<le> 7
            \<and> 0 \<le> end_col \<and> end_col < start_col \<and> start_col \<le> 7"
  then show "np_extract (Array (Ndarray2 frame)) start_row start_col end_row end_col
              = Inr (replicate (nat (end_row - start_row + 1)) [])"
    using assms by (intro np_extract_empty_rows) simp_all
next
  fix mm
  assume r: "np_extract (Array (Ndarray2 frame)) start_row start_col end_row end_col = Inr mm"
  then have a: "append_each
                  (\<lambda>r. append_each (\<lambda>c. item2 (Ndarray2 frame) r c) [] (py_range start_col (end_col + 1)))
                  [] (py_range start_row (end_row + 1)) = Inr mm"
    using assms by (auto simp: np_extract_def frame_dims split: if_splits)
  from append_each_length [OF a] show "length mm = nat (end_row - start_row + 1)"
    by (simp add: py_range_length)
  show "list_all (\<lambda>row. length row = nat (end_col - start_col + 1)) mm"
    unfolding list_all_length
  proof (intro allI impI)
    fix k assume "k < length mm"
    with append_each_length [OF a] have "k < length (py_range start_row (end_row + 1))" by simp
    from append_each_nth [OF a this] append_each_length
    show "length (mm ! k) = nat (end_col - start_col + 1)"
      by (metis py_range_length)
  qed
qed

theorem np_extract_out_of_range_witness:
  "np_extract (Array (Ndarray2 frame0)) 0 0 9 7 = Inl ValueError
   \<and> np_extract (Array (Ndarray2 frame0)) (- 1) 0 7 7 = Inl ValueError
   \<and> np_extract (Array (Ndarray2 frame0)) 6 2 3 5 = Inr []
   \<and> np_extract (Array (Ndarray2 frame0)) 2 5 4 2 = Inr [[], [], []]
   \<and> (\<exists>mm. np_extract (Array (Ndarray2 frame0)) 2 2 5 5 = Inr mm
          \<and> length mm = 4 \<and> list_all (\<lambda>row. length row = 4) mm)"
  using np_extract_out_of_range [of frame0 0 0 9 7] np_extract_out_of_range [of frame0 "- 1" 0 7 7]
    np_extract_out_of_range [of frame0 6 2 3 5] np_extract_out_of_range [of frame0 2 5 4 2]
    np_extract_out_of_range [of frame0 2 2 5 5] np_extract_center_zone frame0_is_frame
  by (simp add: numeral_eq_Suc)

section \<open>Zone averages\<close>

lemma sum_list_uniform: "(\<forall>x \<in> set xs. x = v) \<Longrightarrow> sum_list xs = length xs * (v::nat)"
  by (induction xs) simp_all

text \<open>
  A sample set that holds the one value \<open>2 ^ 53 + 1\<close> does not average to that value: the
  sample is not a float, its conversion rounds to \<open>2 ^ 53\<close>, and so does the average.
\<close>

theorem average_mm_rounded_sample_counterexample:
  "average_mm [[2 ^ 53 + 1]] = Inr (2 ^ 53) \<and> (2 ^ 53 :: int) \<noteq> 2 ^ 53 + 1"
proof -
  have "float64 9007199254740993 = 9007199254740992" by (rule float64_tie_2_53)
  moreover have "float64 9007199254740992 = 9007199254740992"
    using float64_of_int [of "2 ^ 53"] by simp
  ultimately show ?thesis
    by (simp add: average_mm_def np_average_def rectangular_def float_sum_def py_int_def)
qed

text \<open>
  Claim C8, as amended. For a sample set of rows of one length that is not empty and whose
  samples, added up, stay at least their number below \<open>2 ^ 52\<close> (every sum and the quotient
  are then exact enough in floats), the zone average is the arithmetic mean of all samples
  truncated to an integer (the samples are unsigned, so truncation toward zero is the
  integer quotient of sum and count); such a sample set that holds the value \<open>v\<close>
  everywhere averages to \<open>v\<close>, and the samples 0 and 10 average to 5.
\<close>

theorem average_mm_truncated_mean:
  assumes "concat mm \<noteq> []" and "rectangular mm"
    and "sum_list (concat mm) + length (concat mm) \<le> 2 ^ 52"
  shows "average_mm mm = Inr (int (sum_list (concat mm) div length (concat mm)))
       \<and> ((\<forall>x \<in> set (concat mm). x = v) \<longrightarrow> average_mm mm = Inr (int v))
       \<and> average_mm [[0, 10]] = Inr 5"
proof -
  let ?s = "sum_list (concat mm)" and ?n = "length (concat mm)"
  from assms(1) have n: "0 < ?n" by simp
  have "(2::nat) ^ 52 \<le> 2 ^ 53" by simp
  with assms(3) have "?s \<le> 2 ^ 53" by linarith
  from float_sum_exact [OF this]
  have "np_average mm = Inr (Some (float64 (real ?s / real ?n)))"
    using assms(1,2) by (simp add: np_average_def Let_def)
  moreover from float64_nonneg [of "real ?s / real ?n"] have "0 \<le> float64 (real ?s / real ?n)" by simp
  ultimately have mean: "average_mm mm = Inr (int (?s div ?n))"
    using float64_quotient_floor [OF n assms(3)] by (simp add: average_mm_def py_int_def)
  have "average_mm mm = Inr (int v)" if "\<forall>x \<in> set (concat mm). x = v"
  proof -
    from that have "?s = ?n * v" by (rule sum_list_uniform)
    with n show ?thesis using mean by simp
  qed
  moreover have "average_mm [[0, 10]] = Inr 5"
    by (simp add: average_mm_def np_average_def rectangular_def float_sum_def py_int_def
        float_values)
  ultimately show ?thesis using mean by blast
qed

theorem average_mm_truncated_mean_witness:
  "average_mm [[150, 150], [150, 150]] = Inr 150 \<and> average_mm [[1, 2], [4, 4]] = Inr 2"
  using average_mm_truncated_mean [of "[[150, 150], [150, 150]]" 150]
    average_mm_truncated_mean [of "[[1, 2], [4, 4]]" 0]
  by (simp add: rectangular_def)

section \<open>Facts that every statement of the scripts preserves\<close>

lemma keeps_return: "(\<And>w. T w w) \<Longrightarrow> keeps T (return x)"
  by (simp add: keeps_def return_def)




lemma keeps_seq:
  assumes trans: "\<And>a b c. T a b \<Longrightarrow> T b c \<Longrightarrow> T a c"
    and p: "keeps T p" and f: "\<And>x. keeps T (f x)"
  shows "keeps T (seq p f)"
  unfolding keeps_def
proof
  fix w
  show "T w (snd (seq p f w))"
  proof (cases "p w")
    case (Pair r w')
    from p have 1: "T w w'" using Pair by (auto simp: keeps_def dest: spec [of _ w])
    show ?thesis
    proof (cases r)
      case (Inl e)
      with Pair 1 show ?thesis by (simp add: seq_def)
    next
      case (Inr x)
      from f [of x] have "T w' (snd (f x w'))" by (simp add: keeps_def)
      with 1 have "T w (snd (f x w'))" by (rule trans)
      with Pair Inr show ?thesis by (simp add: seq_def)
    qed
  qed
qed

lemma keeps_block:
  assumes refl: "\<And>w. T w w" and trans: "\<And>a b c. T a b \<Longrightarrow> T b c \<Longrightarrow> T a c"
  shows "list_all (keeps T) ps \<Longrightarrow> keeps T (block ps)"
proof (induction ps)
  case Nil
  show ?case by (simp add: keeps_return refl)
next
  case (Cons p ps)
  then show ?case by (simp add: keeps_seq [where T = T, OF trans])
qed






section \<open>Delivery of the operator's interrupt\<close>


lemma settles_return: "settles F False (return x) w"
  by (simp add: settles_def return_def)







lemma settles_seq:
  assumes p: "settles F s1 p w"
    and f: "\<And>x w'. p w = (Inr x, w') \<Longrightarrow> settles F s2 (f x) w'"
  shows "settles F (s1 \<or> s2) (seq p f) w"
  unfolding settles_def
proof (intro allI impI)
  fix k assume k: "irq w = Some k \<and> k < F"
  show "case seq p f w of
          (Inl e, w') \<Rightarrow> e \<noteq> Out_of_fuel \<and>
             (if e = KeyboardInterrupt then irq w' = None else (\<exists>k'. irq w' = Some k' \<and> k' \<le> k))
        | (Inr x, w') \<Rightarrow> (\<exists>k'. irq w' = Some k' \<and> (if s1 \<or> s2 then k' < k else k' \<le> k))"
  proof (cases "p w")
    case (Pair r w1)
    show ?thesis
    proof (cases r)
      case (Inl e)
      with Pair p k show ?thesis by (auto simp: settles_def seq_def)
    next
      case (Inr x)
      with Pair p k obtain k1 where k1: "irq w1 = Some k1" "if s1 then k1 < k else k1 \<le> k"
        by (auto simp: settles_def)
      then have "k1 \<le> k" by (cases s1) auto
      with k k1 have "irq w1 = Some k1 \<and> k1 < F" by simp
      with f [of x w1] Pair Inr
      have "case f x w1 of
          (Inl e, w') \<Rightarrow> e \<noteq> Out_of_fuel \<and>
             (if e = KeyboardInterrupt then irq w' = None else (\<exists>k'. irq w' = Some k' \<and> k' \<le> k1))
        | (Inr x, w') \<Rightarrow> (\<exists>k'. irq w' = Some k' \<and> (if s2 then k' < k1 else k' \<le> k1))"
        by (simp add: settles_def)
      with k1 \<open>k1 \<le> k\<close> Pair Inr show ?thesis
        by (cases s1; cases s2) (fastforce simp: seq_def split: prod.splits sum.splits if_splits)+
    qed
  qed
qed

lemma settles_seq_first:
  "settles F True p w \<Longrightarrow> (\<And>x w'. p w = (Inr x, w') \<Longrightarrow> settles F False (f x) w')
   \<Longrightarrow> settles F True (seq p f) w"
  using settles_seq [of F True p w False f] by simp


lemma settles_seq_none:
  "settles F False p w \<Longrightarrow> (\<And>x w'. p w = (Inr x, w') \<Longrightarrow> settles F False (f x) w')
   \<Longrightarrow> settles F False (seq p f) w"
  using settles_seq [of F False p w False f] by simp

lemma settles_block: "(\<And>p w. p \<in> set ps \<Longrightarrow> settles F False p w) \<Longrightarrow> settles F False (block ps) w"
proof (induction ps arbitrary: w)
  case Nil
  show ?case by (simp add: settles_return)
next
  case (Cons p ps)
  show ?case by (simp, rule settles_seq_none) (simp_all add: Cons)
qed

lemma settles_block_first:
  "settles F True p w \<Longrightarrow> (\<And>q w. q \<in> set ps \<Longrightarrow> settles F False q w)
   \<Longrightarrow> settles F True (block (p # ps)) w"
  by (simp, rule settles_seq_first) (simp_all add: settles_block)






lemma settles_skip:
  "p w = (Inr x, w) \<Longrightarrow> settles F s (f x) w \<Longrightarrow> settles F s (seq p f) w"
  by (simp add: settles_def seq_def)

section \<open>Errors of the pure functions\<close>








section \<open>Rules for statements that need not take a step\<close>










section \<open>Trilobot\_v072.py: the interrupt is delivered\<close>

























section \<open>The ultrasonic scripts: the interrupt is delivered\<close>














section \<open>Cancellation stops the motors\<close>







section \<open>Running the scripts on given inputs\<close>

lemma run_return: "return x w = (Inr x, w)"
  by (simp add: return_def)

lemma run_raise: "raise e w = (Inl e, w)"
  by (simp add: raise_def)

lemma run_lift: "lift r w = (r, w)"
  by (simp add: lift_def)

lemma run_seq:
  "seq p f w = (case p w of (Inl e, w') \<Rightarrow> (Inl e, w') | (Inr x, w') \<Rightarrow> f x w')"
  by (simp add: seq_def)

lemma run_get: "get f w = (Inr (f (vars w)), w)"
  by (simp add: get_def)

lemma run_assign:
  "assign f w = seq interruption_point (\<lambda>_ w. (Inr (), w\<lparr>vars := f (vars w)\<rparr>)) w"
  by (simp add: assign_def)

lemma run_interruption_point:
  "interruption_point w =
     (case irq w of
        None \<Rightarrow> (Inr (), w)
      | Some k \<Rightarrow> if k = 0 then (Inl KeyboardInterrupt, w\<lparr>irq := None\<rparr>)
                  else (Inr (), w\<lparr>irq := Some (k - 1)\<rparr>))"
  by (simp add: interruption_point_def split: option.splits nat.splits)

lemma run_call:
  "call e w = seq interruption_point (\<lambda>_ w. (Inr (), w\<lparr>trace := trace w @ [e]\<rparr>)) w"
  by (simp add: call_def)

lemma run_ask:
  "ask stream ev w =
     seq interruption_point
       (\<lambda>_ w. (Inr (stream (env w) (asked w)),
               w\<lparr>trace := trace w @ [ev (stream (env w) (asked w))], asked := Suc (asked w)\<rparr>)) w"
  by (simp add: ask_def Let_def)

lemma run_while:
  "while_loop fuel cond body w =
     (if fuel = 0 then (Inl Out_of_fuel, w)
      else seq cond (\<lambda>c. if c then seq body (\<lambda>_. while_loop (fuel - 1) cond body)
                          else return ()) w)"
  by (cases fuel) (simp_all add: raise_def cong: if_cong)

lemma run_for_range:
  "for_range n body w =
     (if n = 0 then (Inr (), w) else seq body (\<lambda>_. for_range (n - 1) body) w)"
  by (cases n) (simp_all add: return_def cong: if_cong)

lemma run_for_fold:
  "for_fold n body s w =
     (if n = 0 then (Inr s, w) else seq (body s) (for_fold (n - 1) body) w)"
  by (cases n) (simp_all add: return_def cong: if_cong)

lemma run_block_nil: "block [] w = (Inr (), w)"
  by (simp add: return_def)

lemma run_block_cons: "block (p # ps) w = seq p (\<lambda>_. block ps) w"
  by simp

lemma run_try:
  "try_except_KeyboardInterrupt body handler w =
     (case body w of
        (Inl e, w') \<Rightarrow> if e = KeyboardInterrupt then handler w' else (Inl e, w')
      | (Inr x, w') \<Rightarrow> (Inr x, w'))"
  by (auto simp: try_except_KeyboardInterrupt_def split: prod.splits sum.splits exn.splits)

lemmas run =
  run_return run_raise run_lift run_seq run_get run_assign run_interruption_point run_call run_ask
  run_while run_for_range run_for_fold run_block_nil run_block_cons run_try
  set_motor_speeds_def set_underlights_def clear_underlights_def sleep_def data_ready_def
  get_data_def random_def randint_def read_distance_def perf_counter_def unbound_name_def
  blink_underlights_def

lemmas run_v072 =
  main_def control_loop_def forward_loop_def reaction_loop_def forward_pass_def reaction_pass_def
  assign_distances_def assign_collision_def np_average_distances_def np_distances_vl53l5cx_mm_def
  backup_def turn_left_def turn_right_def react_def

lemma upt_0_8: "[0..<8] = [0, 1, 2, 3, 4, 5, 6, 7]"
  by (simp add: upt_rec [of 0] upt_rec [of "Suc n" for n] upt_rec [of "numeral n" for n])

lemmas run_pure =
  upt_0_8 reshape_8_8_def flipud_def fliplr_def np_extract_def nr_rows_cols_def item2_def getitem_def
  py_range_def upto.simps average_mm_def np_average_def rectangular_def float_sum_def py_int_def
  check_for_collision_def turn_decision_def py_float_exact py_round_def round_half_even_def
  uint64_def float_values

lemmas constants_v072 =
  COLLISION_THRESHOLD_MM_def TURN_TOLERANCE_MM_def NORMAL_LEFT_SPEED_def NORMAL_LEFT_OFFSET_def
  NORMAL_RIGHT_SPEED_def NORMAL_RIGHT_OFFSET_def TURN_SPEED_def TURN_TIME_SEC_def LEFT_def
  RIGHT_def DEFAULT_BACKUP_LOOPS_def DEFAULT_BACKUP_TIME_SEC_def RED_def BLUE_def GREEN_def
  YELLOW_def DEFAULT_BLINK_RATE_SEC_def DEFAULT_NUM_CYCLES_def LEFT_LIGHTS_def RIGHT_LIGHTS_def
  REAR_LIGHTS_def FRONT_LIGHTS_def

section \<open>The trace only grows\<close>



lemma grows_interruption_point: "keeps extends interruption_point"
  by (auto simp: keeps_def extends_def interruption_point_def split: option.splits nat.splits)






















section \<open>No statement of Trilobot\_v072.py assigns the global last\_turn\<close>
















section \<open>Runs without an interrupt\<close>














section \<open>Backing up before the turn\<close>






lemmas run_us =
  main_100_def main_060_def control_pass_100_def control_pass_060_def assign_reading_100_def
  assign_reading_060_def turn_pass_100_def turn_pass_060_def react_060_def
  distance_reading_cm_def valid_distance.simps float_values

lemmas constants_us =
  MAX_NUM_READINGS_def MAX_TIMEOUT_SEC_def MAX_NUM_SAMPLES_def COLLISION_THRESHOLD_CM_100_def
  START_LEFT_SPEED_def START_RIGHT_SPEED_def TURN_SPEED_100_def TURN_TIME_SEC_100_def
  TURN_RIGHT_PERCENT_100_def DEFAULT_BLINK_COLOR_100_def COLLISION_THRESHOLD_CM_060_def
  NORMAL_LEFT_SPEED_060_def NORMAL_RIGHT_SPEED_060_def TURN_SPEED_060_def TURN_TIME_SEC_060_def
  TURN_RIGHT_PERCENT_060_def BACKUP_LOOPS_def BACKUP_TIME_SEC_def

lemmas worlds =
  start_def start_us_def quiet_def deaf_def obstacle_ahead_def start_driving_def
  start_collided_def start_us_collided_def

section \<open>Sample runs\<close>




text \<open>
  The commands the motors got in these runs: Trilobot\_v072.py with the drive on was
  interrupted in its fifth backup pulse, Trilobot\_v060.py after its first turn.
\<close>

lemma run_v072_motor_commands:
  "motor_commands (trace (snd (main 70 (start_driving\<lparr>irq := Some 32\<rparr>))))
   = [(1 / 2, 0), (- (9 / 20), - (9 / 20)), (- (9 / 20), - (9 / 20)), (- (9 / 20), - (9 / 20)),
      (- (9 / 20), - (9 / 20)), (0, 0)]"
  by (simp add: run run_v072 run_pure constants_v072 worlds
      del: block.simps while_loop.simps for_range.simps for_fold.simps)

lemma run_060_motor_commands:
  "motor_commands (trace (snd (main_060 70 (start_us\<lparr>irq := Some 64\<rparr>))))
   = [(13 / 20, 13 / 20), (- (13 / 20), - (13 / 20)), (- (13 / 20), - (13 / 20)),
      (- (13 / 20), - (13 / 20)), (- (13 / 20), - (13 / 20)), (- (13 / 20), - (13 / 20)),
      (13 / 20, - (13 / 20)), (0, 0)]"
  by (simp add: run run_us constants_us constants_v072 worlds
      del: block.simps while_loop.simps for_range.simps for_fold.simps)


section \<open>The collision flag\<close>






section \<open>Failure of the ultrasonic sensor\<close>


section \<open>The backup manoeuvre\<close>





section \<open>The global last\_turn\<close>




end
